theory Spec2Isabelle
  imports Complex_Main
begin

section \<open>Arrays\<close>

text \<open>
  The numpy arrays and torch tensors of \<^verbatim>\<open>app.py\<close> are modelled by their shape and
  their element at every index; elements are real numbers (the rounding of float32 is
  not modelled). What Python raises is a value of \<open>failure\<close>; \<open>NotANumber\<close> marks the
  places where the source would put NaN into an array, which a real-valued array
  cannot hold.
\<close>

datatype failure =
  ValueError | TypeError | OverflowError | AssertionError | RuntimeError | IndexError
  | NotANumber

record nd =
  shape :: "nat list"
  elem :: "nat list \<Rightarrow> real"

definition ndim :: "nd \<Rightarrow> nat" where
  "ndim a = length (shape a)"

definition valid_index :: "nat list \<Rightarrow> nat list \<Rightarrow> bool" where
  "valid_index sh idx = list_all2 (\<lambda>i d. i < d) idx sh"

fun indices :: "nat list \<Rightarrow> nat list list" where
  "indices [] = [[]]"
| "indices (d # ds) = concat (map (\<lambda>i. map ((#) i) (indices ds)) [0..<d])"


section \<open>Server helpers\<close>

text \<open>\<^verbatim>\<open>arr[None, ...]\<close>: a new leading axis of length one.\<close>

definition new_axis0 :: "nd \<Rightarrow> nd" where
  "new_axis0 a = \<lparr>shape = 1 # shape a, elem = (\<lambda>idx. elem a (tl idx))\<rparr>"

definition ensure_batched :: "nd \<Rightarrow> nat \<Rightarrow> failure + nd" where
  "ensure_batched arr last_dim =
     (if ndim arr = 2 \<and> shape arr ! 1 = last_dim then Inr (new_axis0 arr)
      else if ndim arr = 3 \<and> shape arr ! 2 = last_dim then Inr arr
      else Inl ValueError)"

section \<open>Utilities\<close>

text \<open>
  \<^verbatim>\<open>flat8_to_stgcn_x\<close>: \<^verbatim>\<open>B, C8, T = p8_t.shape\<close> raises ValueError unless the tensor has
  three axes, the assertion fails unless the second is 8; the three slices, the last
  one padded with a zero channel, are stacked along a new last axis.
\<close>

definition flat8_to_stgcn_x :: "nd \<Rightarrow> failure + nd" where
  "flat8_to_stgcn_x p8_t =
     (case shape p8_t of
        [B, C8, T] \<Rightarrow>
          if C8 \<noteq> 8 then Inl AssertionError
          else Inr \<lparr>shape = [B, 3, T, 3],
                    elem = (\<lambda>idx. case idx of
                       [b, c, t, v] \<Rightarrow>
                         if v = 0 then elem p8_t [b, c, t]
                         else if v = 1 then elem p8_t [b, 3 + c, t]
                         else if c < 2 then elem p8_t [b, 6 + c, t]
                         else 0
                     | _ \<Rightarrow> 0)\<rparr>
      | _ \<Rightarrow> Inl ValueError)"

section \<open>Broadcasting and reshaping\<close>

text \<open>
  The elementwise operators of numpy and torch align the two shapes at their last
  axes; two lengths fit when they are equal or one of them is 1. \<open>bshape\<close> works on
  the reversed shapes.
\<close>

fun bshape :: "nat list \<Rightarrow> nat list \<Rightarrow> nat list option" where
  "bshape [] ys = Some ys"
| "bshape xs [] = Some xs"
| "bshape (x # xs) (y # ys) =
     (if x = y \<or> y = 1 then map_option ((#) x) (bshape xs ys)
      else if x = 1 then map_option ((#) y) (bshape xs ys)
      else None)"

definition broadcast_shapes :: "nat list \<Rightarrow> nat list \<Rightarrow> nat list option" where
  "broadcast_shapes a b = map_option rev (bshape (rev a) (rev b))"

text \<open>The index into an operand of shape \<open>sh\<close> that the result index \<open>idx\<close> reads.\<close>

definition bidx :: "nat list \<Rightarrow> nat list \<Rightarrow> nat list" where
  "bidx sh idx = map2 (\<lambda>d i. if d = 1 then 0 else i) sh (drop (length idx - length sh) idx)"

definition binop :: "failure \<Rightarrow> (real \<Rightarrow> real \<Rightarrow> real) \<Rightarrow> nd \<Rightarrow> nd \<Rightarrow> failure + nd" where
  "binop err f a b =
     (case broadcast_shapes (shape a) (shape b) of
        None \<Rightarrow> Inl err
      | Some s \<Rightarrow> Inr \<lparr>shape = s,
                       elem = (\<lambda>idx. f (elem a (bidx (shape a) idx)) (elem b (bidx (shape b) idx)))\<rparr>)"

definition numel :: "nd \<Rightarrow> nat" where
  "numel a = prod_list (shape a)"

text \<open>\<^verbatim>\<open>np.asarray\<close> of a flat list of numbers.\<close>

definition vec :: "real list \<Rightarrow> nd" where
  "vec l = \<lparr>shape = [length l],
            elem = (\<lambda>idx. case idx of [i] \<Rightarrow> if i < length l then l ! i else 0 | _ \<Rightarrow> 0)\<rparr>"

definition zeros :: "nat list \<Rightarrow> nd" where
  "zeros sh = \<lparr>shape = sh, elem = (\<lambda>idx. 0)\<rparr>"

text \<open>Row-major position of an index, and back.\<close>

fun flat_pos :: "nat list \<Rightarrow> nat list \<Rightarrow> nat" where
  "flat_pos (d # ds) (i # js) = i * prod_list ds + flat_pos ds js"
| "flat_pos ds js = 0"

fun unflat :: "nat list \<Rightarrow> nat \<Rightarrow> nat list" where
  "unflat [] n = []"
| "unflat (d # ds) n = (n div prod_list ds) # unflat ds (n mod prod_list ds)"

definition reshape :: "nd \<Rightarrow> nat list \<Rightarrow> failure + nd" where
  "reshape a s =
     (if prod_list s = numel a
      then Inr \<lparr>shape = s, elem = (\<lambda>idx. elem a (unflat (shape a) (flat_pos s idx)))\<rparr>
      else Inl ValueError)"

text \<open>\<^verbatim>\<open>a.reshape(-1, c)\<close>: the first length is inferred.\<close>

definition reshape_rows :: "nd \<Rightarrow> nat \<Rightarrow> failure + nd" where
  "reshape_rows a c =
     (if c = 0 \<or> numel a mod c \<noteq> 0 then Inl ValueError
      else reshape a [numel a div c, c])"

text \<open>\<^verbatim>\<open>np.transpose(a, (0, 2, 1))\<close>.\<close>

definition transpose_021 :: "nd \<Rightarrow> failure + nd" where
  "transpose_021 a =
     (case shape a of
        [B, T, C] \<Rightarrow> Inr \<lparr>shape = [B, C, T],
                         elem = (\<lambda>idx. case idx of [b, c, t] \<Rightarrow> elem a [b, t, c] | _ \<Rightarrow> 0)\<rparr>
      | _ \<Rightarrow> Inl ValueError)"

text \<open>\<^verbatim>\<open>a[..., None]\<close>: a new last axis of length one.\<close>

definition new_axis_last :: "nd \<Rightarrow> nd" where
  "new_axis_last a = \<lparr>shape = shape a @ [1], elem = (\<lambda>idx. elem a (butlast idx))\<rparr>"

text \<open>
  \<^verbatim>\<open>apply_indices\<close>: \<^verbatim>\<open>arr[..., idx]\<close> picks along the last axis; a negative index counts
  from the end, an index outside the axis raises IndexError.
\<close>

definition wrap_index :: "nat \<Rightarrow> int \<Rightarrow> nat option" where
  "wrap_index d i =
     (if 0 \<le> i \<and> i < int d then Some (nat i)
      else if - int d \<le> i \<and> i < 0 then Some (nat (int d + i))
      else None)"

definition apply_indices :: "nd \<Rightarrow> int list option \<Rightarrow> failure + nd" where
  "apply_indices arr indices_opt =
     (case indices_opt of
        None \<Rightarrow> Inr arr
      | Some idx \<Rightarrow>
          if shape arr = [] then Inl IndexError
          else if list_ex (\<lambda>i. wrap_index (last (shape arr)) i = None) idx then Inl IndexError
          else Inr \<lparr>shape = butlast (shape arr) @ [length idx],
                    elem = (\<lambda>js. if js = [] \<or> length idx \<le> last js then 0
                                  else elem arr (butlast js @ [the (wrap_index (last (shape arr)) (idx ! last js))]))\<rparr>)"

section \<open>Scaler\<close>

record scaler_stat =
  mean :: "real list"
  std :: "real list"

text \<open>\<^verbatim>\<open>z_apply\<close>: \<^verbatim>\<open>std[std == 0] = 1.0\<close>, then \<^verbatim>\<open>(arr - mean) / std\<close>.\<close>

definition z_apply :: "nd \<Rightarrow> scaler_stat \<Rightarrow> failure + nd" where
  "z_apply arr stat =
     (let mean_a = vec (mean stat);
          std_a = vec (map (\<lambda>s. if s = 0 then 1 else s) (std stat))
      in case binop ValueError (-) arr mean_a of
           Inl e \<Rightarrow> Inl e
         | Inr d \<Rightarrow> binop ValueError (/) d std_a)"

text \<open>\<^verbatim>\<open>z_inv\<close>: \<^verbatim>\<open>arr * std + mean\<close>, with the std as it is stored.\<close>

definition z_inv :: "nd \<Rightarrow> scaler_stat \<Rightarrow> failure + nd" where
  "z_inv arr stat =
     (let mean_a = vec (mean stat);
          std_a = vec (std stat)
      in case binop ValueError (*) arr std_a of
           Inl e \<Rightarrow> Inl e
         | Inr m \<Rightarrow> binop ValueError (+) m mean_a)"

section \<open>STGCN\<close>

text \<open>
  \<^verbatim>\<open>nn.Conv2d(in, out, kernel_size=(k, 1), padding=(p, 0))\<close> on a tensor [B, C, T, V]:
  torch raises RuntimeError when C is not the layer's number of input channels or the
  padded input is smaller than the kernel. The weight tensor [out, in, k, 1] and the bias
  [out] are read by index. Only the batched input of four axes is modelled, which is all
  the callers pass; on any other rank the model fails.
\<close>

record conv2d =
  in_channels :: nat
  out_channels :: nat
  kernel_t :: nat
  padding_t :: nat
  weight :: "nat \<Rightarrow> nat \<Rightarrow> nat \<Rightarrow> real"
  bias :: "nat \<Rightarrow> real"

record layer_params =
  lp_weight :: "nat \<Rightarrow> nat \<Rightarrow> nat \<Rightarrow> real"
  lp_bias :: "nat \<Rightarrow> real"

definition Conv2d :: "nat \<Rightarrow> nat \<Rightarrow> nat \<Rightarrow> nat \<Rightarrow> layer_params \<Rightarrow> conv2d" where
  "Conv2d cin cout k p \<theta> =
     \<lparr>in_channels = cin, out_channels = cout, kernel_t = k, padding_t = p,
      weight = lp_weight \<theta>, bias = lp_bias \<theta>\<rparr>"

definition conv2d_forward :: "conv2d \<Rightarrow> nd \<Rightarrow> failure + nd" where
  "conv2d_forward cv x =
     (case shape x of
        [B, C, T, V] \<Rightarrow>
          if C \<noteq> in_channels cv then Inl RuntimeError
          else if T + 2 * padding_t cv < kernel_t cv \<or> V = 0 then Inl RuntimeError
          else Inr \<lparr>shape = [B, out_channels cv, T + 2 * padding_t cv - kernel_t cv + 1, V],
                    elem = (\<lambda>idx. case idx of
                       [b, oc, t, v] \<Rightarrow>
                         bias cv oc +
                         sum_list (map (\<lambda>c. sum_list (map (\<lambda>j.
                             weight cv oc c j *
                               (if padding_t cv \<le> t + j \<and> t + j - padding_t cv < T
                                then elem x [b, c, t + j - padding_t cv, v] else 0))
                           [0..<kernel_t cv])) [0..<C])
                     | _ \<Rightarrow> 0)\<rparr>
      | _ \<Rightarrow> Inl RuntimeError)"

definition nd_map :: "(real \<Rightarrow> real) \<Rightarrow> nd \<Rightarrow> nd" where
  "nd_map f a = \<lparr>shape = shape a, elem = (\<lambda>idx. f (elem a idx))\<rparr>"

definition relu :: "real \<Rightarrow> real" where
  "relu v = max 0 v"

text \<open>\<^verbatim>\<open>TemporalConv\<close>: kernel (k, 1), padding (k // 2, 0), then relu.\<close>

definition TemporalConv :: "nat \<Rightarrow> nat \<Rightarrow> nat \<Rightarrow> layer_params \<Rightarrow> conv2d" where
  "TemporalConv cin cout kernel_size \<theta> = Conv2d cin cout kernel_size (kernel_size div 2) \<theta>"

definition TemporalConv_forward :: "conv2d \<Rightarrow> nd \<Rightarrow> failure + nd" where
  "TemporalConv_forward cv x =
     (case conv2d_forward cv x of Inl e \<Rightarrow> Inl e | Inr y \<Rightarrow> Inr (nd_map relu y))"

text \<open>
  The adjacency is a tensor of two axes (\<^verbatim>\<open>make_adj\<close> builds \<^verbatim>\<open>torch.ones((n, n))\<close>); the
  additions broadcast, the matrix products raise RuntimeError when the inner lengths
  differ.
\<close>

record matrix =
  rows :: nat
  cols :: nat
  entry :: "nat \<Rightarrow> nat \<Rightarrow> real"

definition make_adj :: "nat \<Rightarrow> matrix" where
  "make_adj num_nodes = \<lparr>rows = num_nodes, cols = num_nodes, entry = (\<lambda>i j. 1)\<rparr>"

definition eye :: "nat \<Rightarrow> matrix" where
  "eye n = \<lparr>rows = n, cols = n, entry = (\<lambda>i j. if i = j then 1 else 0)\<rparr>"

definition mat_add :: "matrix \<Rightarrow> matrix \<Rightarrow> failure + matrix" where
  "mat_add a b =
     (case broadcast_shapes [rows a, cols a] [rows b, cols b] of
        Some [r, c] \<Rightarrow>
          Inr \<lparr>rows = r, cols = c,
               entry = (\<lambda>i j. entry a (if rows a = 1 then 0 else i) (if cols a = 1 then 0 else j)
                              + entry b (if rows b = 1 then 0 else i) (if cols b = 1 then 0 else j))\<rparr>
      | _ \<Rightarrow> Inl RuntimeError)"

definition row_sums :: "matrix \<Rightarrow> nat \<Rightarrow> real" where
  "row_sums a i = sum_list (map (entry a i) [0..<cols a])"

definition diag :: "nat \<Rightarrow> (nat \<Rightarrow> real) \<Rightarrow> matrix" where
  "diag n d = \<lparr>rows = n, cols = n, entry = (\<lambda>i j. if i = j then d i else 0)\<rparr>"

definition matmul :: "matrix \<Rightarrow> matrix \<Rightarrow> failure + matrix" where
  "matmul a b =
     (if cols a \<noteq> rows b then Inl RuntimeError
      else Inr \<lparr>rows = rows a, cols = cols b,
                entry = (\<lambda>i j. sum_list (map (\<lambda>k. entry a i k * entry b k j) [0..<cols a]))\<rparr>)"

text \<open>
  \<^verbatim>\<open>torch.pow(deg, -0.5)\<close> with the infinite entries (degree 0) set to 0. A negative degree
  gives NaN in the source; \<open>normalized_adjacency\<close> stops there with \<open>NotANumber\<close>.
\<close>

definition deg_inv_sqrt :: "real \<Rightarrow> real" where
  "deg_inv_sqrt d = (if d = 0 then 0 else 1 / sqrt d)"

text \<open>
  \<^verbatim>\<open>torch.einsum("bctv,vw->bctw", x, norm_adj)\<close>: the two lengths of the axis \<open>v\<close> must be
  equal or one of them 1 (then that operand is repeated along \<open>v\<close>).
\<close>

definition einsum_bctv_vw :: "nd \<Rightarrow> matrix \<Rightarrow> failure + nd" where
  "einsum_bctv_vw x n =
     (case shape x of
        [B, C, T, V] \<Rightarrow>
          if V \<noteq> rows n \<and> V \<noteq> 1 \<and> rows n \<noteq> 1 then Inl RuntimeError
          else Inr \<lparr>shape = [B, C, T, cols n],
                    elem = (\<lambda>idx. case idx of
                       [b, c, t, w] \<Rightarrow>
                         sum_list (map (\<lambda>v. elem x [b, c, t, if V = 1 then 0 else v]
                                              * entry n (if rows n = 1 then 0 else v) w)
                                     [0..<(if V = 1 then rows n else V)])
                     | _ \<Rightarrow> 0)\<rparr>
      | _ \<Rightarrow> Inl RuntimeError)"

text \<open>The first six lines of \<^verbatim>\<open>GraphConv.forward\<close>, up to \<^verbatim>\<open>norm_adj\<close>.\<close>

definition normalized_adjacency :: "matrix \<Rightarrow> failure + matrix" where
  "normalized_adjacency adj0 =
     (case mat_add adj0 (eye (rows adj0)) of
        Inl e \<Rightarrow> Inl e
      | Inr adj \<Rightarrow>
          if list_ex (\<lambda>i. row_sums adj i < 0) [0..<rows adj] then Inl NotANumber
          else
            (let D_inv_sqrt = diag (rows adj) (\<lambda>i. deg_inv_sqrt (row_sums adj i))
             in (case matmul D_inv_sqrt adj of
                   Inl e \<Rightarrow> Inl e
                 | Inr da \<Rightarrow> matmul da D_inv_sqrt)))"

definition GraphConv_forward :: "nd \<Rightarrow> matrix \<Rightarrow> failure + nd" where
  "GraphConv_forward x adj =
     (case normalized_adjacency adj of
        Inl e \<Rightarrow> Inl e
      | Inr norm_adj \<Rightarrow> einsum_bctv_vw x norm_adj)"

record stgcn_block =
  temp1 :: conv2d
  temp2 :: conv2d

record stgcn =
  block :: stgcn_block
  final :: conv2d

text \<open>The tensors of a checkpoint, one pair per layer.\<close>

record checkpoint =
  temp1_params :: layer_params
  temp2_params :: layer_params
  final_params :: layer_params
  kpi_head_params :: layer_params

definition STGCNBlock :: "nat \<Rightarrow> nat \<Rightarrow> nat \<Rightarrow> checkpoint \<Rightarrow> stgcn_block" where
  "STGCNBlock cin cout kernel_size ck =
     \<lparr>temp1 = TemporalConv cin cout kernel_size (temp1_params ck),
      temp2 = TemporalConv cout cout kernel_size (temp2_params ck)\<rparr>"

definition STGCNBlock_forward :: "stgcn_block \<Rightarrow> nd \<Rightarrow> matrix \<Rightarrow> failure + nd" where
  "STGCNBlock_forward blk x adj =
     (case TemporalConv_forward (temp1 blk) x of
        Inl e \<Rightarrow> Inl e
      | Inr x1 \<Rightarrow>
          (case GraphConv_forward x1 adj of
             Inl e \<Rightarrow> Inl e
           | Inr x2 \<Rightarrow> TemporalConv_forward (temp2 blk) x2))"

definition STGCN :: "nat \<Rightarrow> nat \<Rightarrow> nat \<Rightarrow> nat \<Rightarrow> checkpoint \<Rightarrow> stgcn" where
  "STGCN cin cout kernel_size num_nodes ck =
     \<lparr>block = STGCNBlock cin 64 kernel_size ck,
      final = Conv2d 64 cout 1 0 (final_params ck)\<rparr>"

definition STGCN_forward :: "stgcn \<Rightarrow> nd \<Rightarrow> matrix \<Rightarrow> failure + nd" where
  "STGCN_forward m x adj =
     (case STGCNBlock_forward (block m) x adj of
        Inl e \<Rightarrow> Inl e
      | Inr h \<Rightarrow> conv2d_forward (final m) h)"

text \<open>
  The configuration, at the defaults that hold when the environment variables of the
  same names are not set, and the artifacts built from it.
\<close>

definition IN_CHANNELS :: nat where "IN_CHANNELS = 3"
definition NUM_NODES :: nat where "NUM_NODES = 3"
definition HID_CHANNELS :: nat where "HID_CHANNELS = 64"
definition KERNEL_SIZE :: nat where "KERNEL_SIZE = 5"

definition STGCN_MODEL :: "checkpoint \<Rightarrow> stgcn" where
  "STGCN_MODEL ck = STGCN IN_CHANNELS HID_CHANNELS KERNEL_SIZE NUM_NODES ck"

definition KPI_HEAD :: "checkpoint \<Rightarrow> conv2d" where
  "KPI_HEAD ck = Conv2d HID_CHANNELS 3 1 0 (kpi_head_params ck)"

definition ADJ :: matrix where
  "ADJ = make_adj NUM_NODES"

text \<open>
  \<^verbatim>\<open>t.mean(dim=-1, keepdim=True)\<close>: the average over the last axis, which stays with
  length one. Over an empty last axis the source gives NaN.
\<close>

definition mean_last :: "nd \<Rightarrow> failure + nd" where
  "mean_last a =
     (if shape a = [] then Inr a
      else if last (shape a) = 0 \<and> prod_list (butlast (shape a)) \<noteq> 0 then Inl NotANumber
      else Inr \<lparr>shape = butlast (shape a) @ [1],
                elem = (\<lambda>idx. sum_list (map (\<lambda>v. elem a (butlast idx @ [v])) [0..<last (shape a)])
                                / real (last (shape a)))\<rparr>)"

text \<open>
  The prediction of the optimisation loop:
  \<^verbatim>\<open>x4 = flat8_to_stgcn_x(opt_params)\<close>,
  \<^verbatim>\<open>feat = STGCN_MODEL(x4, ADJ).mean(dim=-1, keepdim=True)\<close>, \<^verbatim>\<open>pred = KPI_HEAD(feat)\<close>.
\<close>

definition kpi_prediction :: "stgcn \<Rightarrow> conv2d \<Rightarrow> matrix \<Rightarrow> nd \<Rightarrow> failure + nd" where
  "kpi_prediction m head adj p8 =
     (case flat8_to_stgcn_x p8 of
        Inl e \<Rightarrow> Inl e
      | Inr x4 \<Rightarrow>
          (case STGCN_forward m x4 adj of
             Inl e \<Rightarrow> Inl e
           | Inr h \<Rightarrow>
               (case mean_last h of
                  Inl e \<Rightarrow> Inl e
                | Inr feat \<Rightarrow> conv2d_forward head feat)))"

section \<open>Inverse optimisation\<close>

text \<open>
  A scalar loss is \<open>None\<close> where the source computes NaN: the mean of an empty tensor
  (\<^verbatim>\<open>tv1\<close> on a single time step) and everything computed from it.
\<close>

definition mean_all :: "nd \<Rightarrow> real option" where
  "mean_all a =
     (if numel a = 0 then None
      else Some (sum_list (map (elem a) (indices (shape a))) / real (numel a)))"

text \<open>\<^verbatim>\<open>nn.MSELoss()\<close>: the mean of the squared differences, the operands broadcast.\<close>

definition mse :: "nd \<Rightarrow> nd \<Rightarrow> failure + real option" where
  "mse a b =
     (case binop RuntimeError (-) a b of
        Inl e \<Rightarrow> Inl e
      | Inr d \<Rightarrow> Inr (mean_all (nd_map (\<lambda>v. v * v) d)))"

text \<open>\<^verbatim>\<open>tv1\<close>: \<^verbatim>\<open>(x[:, :, 1:] - x[:, :, :-1]).abs().mean()\<close>; fewer than three axes raise IndexError.\<close>

definition tv1 :: "nd \<Rightarrow> failure + real option" where
  "tv1 x =
     (if ndim x < 3 then Inl IndexError
      else Inr (mean_all
             \<lparr>shape = (shape x)[2 := shape x ! 2 - 1],
              elem = (\<lambda>idx. \<bar>elem x (idx[2 := idx ! 2 + 1]) - elem x idx\<bar>)\<rparr>))"

definition nan_scale :: "real \<Rightarrow> real option \<Rightarrow> real option" where
  "nan_scale c v = map_option ((*) c) v"

definition nan_add :: "real option \<Rightarrow> real option \<Rightarrow> real option" where
  "nan_add u v = (case u of None \<Rightarrow> None | Some a \<Rightarrow> map_option ((+) a) v)"

record hyper =
  alpha :: real
  beta :: real
  gamma :: real
  steps :: int
  lr :: real
  zmin :: real
  zmax :: real

text \<open>
  The decision array with the state \<^verbatim>\<open>optim.Adam\<close> keeps for it (default betas 0.9 and
  0.999, eps 1e-8, no weight decay): the two moment estimates and the step counter.
\<close>

record opt_state =
  opt_params :: nd
  exp_avg :: "nat list \<Rightarrow> real"
  exp_avg_sq :: "nat list \<Rightarrow> real"
  step_t :: nat

definition adam_step :: "real \<Rightarrow> (nat list \<Rightarrow> real) \<Rightarrow> opt_state \<Rightarrow> opt_state" where
  "adam_step rate grad s =
     (let t = step_t s + 1;
          m = (\<lambda>i. exp_avg s i + (grad i - exp_avg s i) * (1 - 9 / 10));
          v = (\<lambda>i. exp_avg_sq s i * (999 / 1000) + (1 - 999 / 1000) * (grad i * grad i));
          bias_correction1 = 1 - (9 / 10) ^ t;
          bias_correction2 = 1 - (999 / 1000) ^ t;
          step_size = rate / bias_correction1;
          denom = (\<lambda>i. sqrt (v i) / sqrt bias_correction2 + 1 / 10 ^ 8)
      in \<lparr>opt_params = \<lparr>shape = shape (opt_params s),
                         elem = (\<lambda>i. elem (opt_params s) i - step_size * (m i / denom i))\<rparr>,
          exp_avg = m, exp_avg_sq = v, step_t = t\<rparr>)"

text \<open>\<^verbatim>\<open>clamp_(lo, hi)\<close>: \<^verbatim>\<open>min(max(v, lo), hi)\<close> on every element.\<close>

definition clamp :: "real \<Rightarrow> real \<Rightarrow> real \<Rightarrow> real" where
  "clamp lo hi v = min (max v lo) hi"

record step_log =
  loss_fit :: "real option"
  loss_dev :: "real option"
  loss_smooth :: "real option"
  loss :: "real option"
  params_after :: nd

text \<open>
  One pass of the loop body. \<open>backward\<close> stands for \<^verbatim>\<open>loss.backward()\<close>: the gradient of
  the loss that autograd leaves for the current decision array, a parameter of the
  model. \<open>supplied\<close> says whether a baseline was given (\<^verbatim>\<open>orig_params_path\<close> is truthy,
  \<^verbatim>\<open>req.orig_params is not None\<close>); \<open>xz0\<close> is the normalised baseline, or the zeros.
\<close>

definition opt_iteration ::
  "stgcn \<Rightarrow> conv2d \<Rightarrow> matrix \<Rightarrow> (nd \<Rightarrow> nat list \<Rightarrow> real) \<Rightarrow> nd \<Rightarrow> nd \<Rightarrow> bool
     \<Rightarrow> 'a hyper_scheme \<Rightarrow> opt_state \<Rightarrow> failure + (step_log \<times> opt_state)" where
  "opt_iteration m head adj backward target xz0 supplied cfg s =
     (case kpi_prediction m head adj (opt_params s) of
        Inl e \<Rightarrow> Inl e
      | Inr pred \<Rightarrow>
     (case mse pred target of
        Inl e \<Rightarrow> Inl e
      | Inr l_fit \<Rightarrow>
     (case (if supplied
            then (case transpose_021 xz0 of
                    Inl e \<Rightarrow> Inl e
                  | Inr base \<Rightarrow> mse (opt_params s) base)
            else Inr (Some 0)) of
        Inl e \<Rightarrow> Inl e
      | Inr l_dev \<Rightarrow>
     (case tv1 (opt_params s) of
        Inl e \<Rightarrow> Inl e
      | Inr l_smooth \<Rightarrow>
          (let l = nan_add (nan_add (nan_scale (alpha cfg) l_fit) (nan_scale (beta cfg) l_dev))
                     (nan_scale (gamma cfg) l_smooth);
               s1 = adam_step (lr cfg) (backward (opt_params s)) s;
               s2 = s1\<lparr>opt_params := nd_map (clamp (zmin cfg) (zmax cfg)) (opt_params s1)\<rparr>
           in Inr (\<lparr>loss_fit = l_fit, loss_dev = l_dev, loss_smooth = l_smooth, loss = l,
                    params_after = opt_params s2\<rparr>, s2))))))"

text \<open>\<^verbatim>\<open>for step in range(n)\<close> over a body that may raise; the passes are logged in order.\<close>

fun for_range :: "nat \<Rightarrow> ('s \<Rightarrow> failure + ('l \<times> 's)) \<Rightarrow> 's \<Rightarrow> failure + ('l list \<times> 's)" where
  "for_range 0 body s = Inr ([], s)"
| "for_range (Suc n) body s =
     (case body s of
        Inl e \<Rightarrow> Inl e
      | Inr (l, s') \<Rightarrow>
          (case for_range n body s' of
             Inl e \<Rightarrow> Inl e
           | Inr (ls, s'') \<Rightarrow> Inr (l # ls, s'')))"

text \<open>
  What both entry points do between the normalisation of their inputs and the
  denormalisation of the result: the decision array starts as the transposed \<open>xz0\<close>,
  \<^verbatim>\<open>optim.Adam\<close> refuses a negative learning rate, the loop runs \<^verbatim>\<open>range(int(steps))\<close>, and
  the decision array is transposed back to [B, T, 8].
\<close>

definition optimize_loop ::
  "stgcn \<Rightarrow> conv2d \<Rightarrow> matrix \<Rightarrow> (nd \<Rightarrow> nat list \<Rightarrow> real) \<Rightarrow> nd \<Rightarrow> nd \<Rightarrow> bool
     \<Rightarrow> 'a hyper_scheme \<Rightarrow> failure + (step_log list \<times> nd)" where
  "optimize_loop m head adj backward target xz0 supplied cfg =
     (case transpose_021 xz0 of
        Inl e \<Rightarrow> Inl e
      | Inr p0 \<Rightarrow>
          if lr cfg < 0 then Inl ValueError
          else
            (case for_range (nat (steps cfg))
                    (opt_iteration m head adj backward target xz0 supplied cfg)
                    \<lparr>opt_params = p0, exp_avg = (\<lambda>i. 0), exp_avg_sq = (\<lambda>i. 0), step_t = 0\<rparr> of
               Inl e \<Rightarrow> Inl e
             | Inr (logs, s) \<Rightarrow>
                 (case transpose_021 (opt_params s) of
                    Inl e \<Rightarrow> Inl e
                  | Inr p_bt8 \<Rightarrow> Inr (logs, p_bt8))))"

record scaler =
  scaler_x :: scaler_stat
  scaler_y :: scaler_stat

record opt_result =
  trace :: "step_log list"
  params_out :: nd

text \<open>\<^verbatim>\<open>z_apply(a.reshape(-1, c), stat).reshape(s)\<close> and the same with \<^verbatim>\<open>z_inv\<close>.\<close>

definition z_apply_rows :: "nd \<Rightarrow> nat \<Rightarrow> scaler_stat \<Rightarrow> nat list \<Rightarrow> failure + nd" where
  "z_apply_rows a c stat s =
     (case reshape_rows a c of
        Inl e \<Rightarrow> Inl e
      | Inr r \<Rightarrow> (case z_apply r stat of Inl e \<Rightarrow> Inl e | Inr z \<Rightarrow> reshape z s))"

definition z_inv_rows :: "nd \<Rightarrow> nat \<Rightarrow> scaler_stat \<Rightarrow> nat list \<Rightarrow> failure + nd" where
  "z_inv_rows a c stat s =
     (case reshape_rows a c of
        Inl e \<Rightarrow> Inl e
      | Inr r \<Rightarrow> (case z_inv r stat of Inl e \<Rightarrow> Inl e | Inr z \<Rightarrow> reshape z s))"

text \<open>
  \<^verbatim>\<open>optimize_params_api\<close>. The request carries the arrays that \<^verbatim>\<open>np.asarray\<close> makes of
  \<^verbatim>\<open>target_kpi\<close> and \<^verbatim>\<open>orig_params\<close>.
\<close>

record OptimizeParamsRequest = hyper +
  target_kpi :: nd
  orig_params :: "nd option"
  kpi_indices :: "int list option"
  return_raw :: bool

definition optimize_params_api ::
  "checkpoint \<Rightarrow> scaler \<Rightarrow> (nd \<Rightarrow> nat list \<Rightarrow> real) \<Rightarrow> OptimizeParamsRequest
     \<Rightarrow> failure + opt_result" where
  "optimize_params_api ck sc backward req =
     (case ensure_batched (target_kpi req) 3 of
        Inl e \<Rightarrow> Inl e
      | Inr tgt0 \<Rightarrow>
     (case apply_indices tgt0 (kpi_indices req) of
        Inl e \<Rightarrow> Inl e
      | Inr tgt \<Rightarrow>
     (case z_apply_rows tgt 3 (scaler_y sc) (shape tgt) of
        Inl e \<Rightarrow> Inl e
      | Inr yz \<Rightarrow>
     (case transpose_021 yz of
        Inl e \<Rightarrow> Inl e
      | Inr yt \<Rightarrow>
     (case (case orig_params req of
              Some op0 \<Rightarrow>
                (case ensure_batched op0 8 of
                   Inl e \<Rightarrow> Inl e
                 | Inr op \<Rightarrow> z_apply_rows op 8 (scaler_x sc) (shape op))
            | None \<Rightarrow> Inr (zeros [shape tgt ! 0, shape tgt ! 1, 8])) of
        Inl e \<Rightarrow> Inl e
      | Inr xz0 \<Rightarrow>
     (case optimize_loop (STGCN_MODEL ck) (KPI_HEAD ck) ADJ backward (new_axis_last yt) xz0
             (orig_params req \<noteq> None) req of
        Inl e \<Rightarrow> Inl e
      | Inr (logs, p_bt8) \<Rightarrow>
          if return_raw req
          then (case z_inv_rows p_bt8 8 (scaler_x sc) [shape tgt ! 0, shape tgt ! 1, 8] of
                  Inl e \<Rightarrow> Inl e
                | Inr p_raw \<Rightarrow> Inr \<lparr>trace = logs, params_out = p_raw\<rparr>)
          else Inr \<lparr>trace = logs, params_out = p_bt8\<rparr>))))))"

text \<open>
  \<^verbatim>\<open>run_optimize_from_csv\<close>, from the arrays read from the files to the array written to
  the output file. \<open>csv_kpi\<close> is \<^verbatim>\<open>df[cols].values\<close> of the target file, \<open>csv_params\<close> that
  of the baseline file when \<^verbatim>\<open>orig_params_path\<close> is given; the checks of
  \<^verbatim>\<open>_read_kpi_from_csv\<close> and \<^verbatim>\<open>_read_params_from_csv\<close> on them are part of the model.
\<close>

record csv_run = hyper +
  csv_kpi :: nd
  csv_params :: "nd option"
  csv_return_raw :: bool

definition check_columns :: "nd \<Rightarrow> nat \<Rightarrow> failure + nd" where
  "check_columns arr n = (if ndim arr \<noteq> 2 \<or> shape arr ! 1 \<noteq> n then Inl ValueError else Inr arr)"

text \<open>\<^verbatim>\<open>a[0]\<close>.\<close>

definition first_item :: "nd \<Rightarrow> failure + nd" where
  "first_item a =
     (if shape a = [] \<or> hd (shape a) = 0 then Inl IndexError
      else Inr \<lparr>shape = tl (shape a), elem = (\<lambda>idx. elem a (0 # idx))\<rparr>)"

definition run_optimize_from_csv ::
  "checkpoint \<Rightarrow> scaler \<Rightarrow> (nd \<Rightarrow> nat list \<Rightarrow> real) \<Rightarrow> csv_run \<Rightarrow> failure + opt_result" where
  "run_optimize_from_csv ck sc backward args =
     (case check_columns (csv_kpi args) 3 of
        Inl e \<Rightarrow> Inl e
      | Inr tgt \<Rightarrow>
     (case z_apply_rows tgt 3 (scaler_y sc) [1, shape tgt ! 0, 3] of
        Inl e \<Rightarrow> Inl e
      | Inr yz \<Rightarrow>
     (case transpose_021 yz of
        Inl e \<Rightarrow> Inl e
      | Inr yt \<Rightarrow>
     (case (case csv_params args of
              Some arr \<Rightarrow>
                (case check_columns arr 8 of
                   Inl e \<Rightarrow> Inl e
                 | Inr op \<Rightarrow> z_apply_rows op 8 (scaler_x sc) [1, shape tgt ! 0, 8])
            | None \<Rightarrow> Inr (zeros [1, shape tgt ! 0, 8])) of
        Inl e \<Rightarrow> Inl e
      | Inr xz0 \<Rightarrow>
     (case optimize_loop (STGCN_MODEL ck) (KPI_HEAD ck) ADJ backward (new_axis_last yt) xz0
             (csv_params args \<noteq> None) args of
        Inl e \<Rightarrow> Inl e
      | Inr (logs, p_b) \<Rightarrow>
     (case first_item p_b of
        Inl e \<Rightarrow> Inl e
      | Inr p_bt8 \<Rightarrow>
          if csv_return_raw args
          then (case z_inv_rows p_bt8 8 (scaler_x sc) [shape tgt ! 0, 8] of
                  Inl e \<Rightarrow> Inl e
                | Inr p_raw \<Rightarrow> Inr \<lparr>trace = logs, params_out = p_raw\<rparr>)
          else Inr \<lparr>trace = logs, params_out = p_bt8\<rparr>))))))"

text \<open>
  Inputs on which neither entry point raises: the arrays have the documented shapes
  ([T, 3] or [B, T, 3] for the target, [T, 8] or [B, T, 8] for the baseline, over the
  same B and T), there is at least one time step, a channel reordering names three
  channels of the array, the scaler statistics have 3 and 8 entries, and the learning
  rate is not negative.
\<close>

definition well_formed_request :: "nat \<Rightarrow> nat \<Rightarrow> scaler \<Rightarrow> OptimizeParamsRequest \<Rightarrow> bool" where
  "well_formed_request B T sc req =
     ((shape (target_kpi req) = [B, T, 3] \<or> (B = 1 \<and> shape (target_kpi req) = [T, 3]))
      \<and> 0 < T
      \<and> (case kpi_indices req of
            None \<Rightarrow> True
          | Some idx \<Rightarrow> length idx = 3 \<and> list_all (\<lambda>i. - 3 \<le> i \<and> i < 3) idx)
      \<and> (case orig_params req of
            None \<Rightarrow> True
          | Some op0 \<Rightarrow> shape op0 = [B, T, 8] \<or> (B = 1 \<and> shape op0 = [T, 8]))
      \<and> length (mean (scaler_y sc)) = 3 \<and> length (std (scaler_y sc)) = 3
      \<and> length (mean (scaler_x sc)) = 8 \<and> length (std (scaler_x sc)) = 8
      \<and> 0 \<le> lr req)"

definition well_formed_csv_run :: "nat \<Rightarrow> scaler \<Rightarrow> csv_run \<Rightarrow> bool" where
  "well_formed_csv_run T sc args =
     (shape (csv_kpi args) = [T, 3]
      \<and> 0 < T
      \<and> (case csv_params args of None \<Rightarrow> True | Some arr \<Rightarrow> shape arr = [T, 8])
      \<and> length (mean (scaler_y sc)) = 3 \<and> length (std (scaler_y sc)) = 3
      \<and> length (mean (scaler_x sc)) = 8 \<and> length (std (scaler_x sc)) = 8
      \<and> 0 \<le> lr args)"

section \<open>Parameter validation of the runner\<close>

text \<open>
  \<^verbatim>\<open>stgcnRunner.py\<close>. The values of \<^verbatim>\<open>execution_config\<close> are what JSON gives Python; a
  float is a real number, one of the infinities, or NaN. Rounding to the nearest double
  is not modelled, only the overflow to infinity.
\<close>

datatype pyfloat = Finite real | PosInf | NegInf | NaN

datatype pyval = PInt int | PFloat pyfloat | PStr string | PBool bool | PNone | PList | PDict

text \<open>The least magnitude that rounds to 2^1024 and so overflows a double.\<close>

definition double_overflow :: real where
  "double_overflow = 2 ^ 1024 - 2 ^ 970"

definition to_double :: "real \<Rightarrow> pyfloat" where
  "to_double r =
     (if double_overflow \<le> r then PosInf
      else if r \<le> - double_overflow then NegInf
      else Finite r)"

text \<open>
  \<^verbatim>\<open>float(s)\<close> on a string, in ASCII: surrounding whitespace is dropped; then an optional
  sign and either \<^verbatim>\<open>inf\<close>, \<^verbatim>\<open>infinity\<close> or \<^verbatim>\<open>nan\<close> in any case, or a decimal number (digits
  with single underscores between them, a point, an exponent).
\<close>

definition is_space :: "char \<Rightarrow> bool" where
  "is_space c = (let n = (of_char c :: nat) in n = 32 \<or> (9 \<le> n \<and> n \<le> 13))"

definition strip :: "string \<Rightarrow> string" where
  "strip s = rev (dropWhile is_space (rev (dropWhile is_space s)))"

definition digit_val :: "char \<Rightarrow> nat option" where
  "digit_val c = (let n = (of_char c :: nat) in if 48 \<le> n \<and> n \<le> 57 then Some (n - 48) else None)"

definition to_lower :: "char \<Rightarrow> char" where
  "to_lower c = (let n = (of_char c :: nat) in if 65 \<le> n \<and> n \<le> 90 then char_of (n + 32) else c)"

fun digitpart_rest :: "string \<Rightarrow> nat list \<times> string" where
  "digitpart_rest [] = ([], [])"
| "digitpart_rest [c] =
     (case digit_val c of Some d \<Rightarrow> ([d], []) | None \<Rightarrow> ([], [c]))"
| "digitpart_rest (c # c' # cs) =
     (case digit_val c of
        Some d \<Rightarrow> (case digitpart_rest (c' # cs) of (ds, r) \<Rightarrow> (d # ds, r))
      | None \<Rightarrow>
          (case digit_val c' of
             Some d' \<Rightarrow>
               if c = CHR ''_'' then (case digitpart_rest cs of (ds, r) \<Rightarrow> (d' # ds, r))
               else ([], c # c' # cs)
           | None \<Rightarrow> ([], c # c' # cs)))"

definition digitpart :: "string \<Rightarrow> (nat list \<times> string) option" where
  "digitpart s =
     (case s of
        [] \<Rightarrow> None
      | c # cs \<Rightarrow>
          (case digit_val c of
             None \<Rightarrow> None
           | Some d \<Rightarrow> (case digitpart_rest cs of (ds, r) \<Rightarrow> Some (d # ds, r))))"

definition digits_value :: "nat list \<Rightarrow> nat" where
  "digits_value ds = foldl (\<lambda>a d. 10 * a + d) 0 ds"

definition take_sign :: "string \<Rightarrow> bool \<times> string" where
  "take_sign s =
     (case s of
        [] \<Rightarrow> (False, s)
      | c # cs \<Rightarrow> if c = CHR ''-'' then (True, cs) else if c = CHR ''+'' then (False, cs) else (False, s))"

text \<open>The integer part, the fraction digits and what follows the number.\<close>

definition parse_number :: "string \<Rightarrow> (nat list \<times> nat list \<times> string) option" where
  "parse_number s =
     (case digitpart s of
        Some (ip, r) \<Rightarrow>
          (case r of
             [] \<Rightarrow> Some (ip, [], r)
           | c # r' \<Rightarrow>
               if c = CHR ''.''
               then (case digitpart r' of Some (fp, r'') \<Rightarrow> Some (ip, fp, r'') | None \<Rightarrow> Some (ip, [], r'))
               else Some (ip, [], r))
      | None \<Rightarrow>
          (case s of
             [] \<Rightarrow> None
           | c # r' \<Rightarrow>
               if c = CHR ''.''
               then (case digitpart r' of Some (fp, r'') \<Rightarrow> Some ([], fp, r'') | None \<Rightarrow> None)
               else None))"

text \<open>The exponent, which must reach the end of the string; no exponent is 0.\<close>

definition parse_exponent :: "string \<Rightarrow> int option" where
  "parse_exponent s =
     (case s of
        [] \<Rightarrow> Some 0
      | c # r \<Rightarrow>
          if c = CHR ''e'' \<or> c = CHR ''E''
          then (case take_sign r of
                  (neg, r') \<Rightarrow>
                    (case digitpart r' of
                       Some (ds, []) \<Rightarrow> Some (if neg then - int (digits_value ds) else int (digits_value ds))
                     | _ \<Rightarrow> None))
          else None)"

definition decimal_value :: "nat list \<Rightarrow> nat list \<Rightarrow> int \<Rightarrow> real" where
  "decimal_value ip fp e =
     (let n = real (digits_value (ip @ fp)); k = e - int (length fp)
      in if 0 \<le> k then n * 10 ^ nat k else n / 10 ^ nat (- k))"

definition float_of_string :: "string \<Rightarrow> pyfloat option" where
  "float_of_string s =
     (case take_sign (strip s) of
        (neg, body) \<Rightarrow>
          let low = map to_lower body in
          if low = ''inf'' \<or> low = ''infinity'' then Some (if neg then NegInf else PosInf)
          else if low = ''nan'' then Some NaN
          else (case parse_number body of
                  None \<Rightarrow> None
                | Some (ip, fp, r) \<Rightarrow>
                    (case parse_exponent r of
                       None \<Rightarrow> None
                     | Some e \<Rightarrow>
                         Some (to_double ((if neg then - 1 else 1) * decimal_value ip fp e)))))"

text \<open>
  \<^verbatim>\<open>float(value)\<close>: an int too large for a double raises OverflowError, a string that
  is no number ValueError, None and containers TypeError.
\<close>

definition py_float :: "pyval \<Rightarrow> failure + pyfloat" where
  "py_float v =
     (case v of
        PInt n \<Rightarrow> if double_overflow \<le> \<bar>real_of_int n\<bar> then Inl OverflowError
                   else Inr (Finite (real_of_int n))
      | PFloat f \<Rightarrow> Inr f
      | PStr s \<Rightarrow> (case float_of_string s of None \<Rightarrow> Inl ValueError | Some f \<Rightarrow> Inr f)
      | PBool b \<Rightarrow> Inr (Finite (if b then 1 else 0))
      | PNone \<Rightarrow> Inl TypeError
      | PList \<Rightarrow> Inl TypeError
      | PDict \<Rightarrow> Inl TypeError)"

text \<open>
  \<^verbatim>\<open>int(f)\<close> on a float: truncation towards zero; an infinity raises OverflowError, NaN
  ValueError.
\<close>

definition py_int :: "pyfloat \<Rightarrow> failure + int" where
  "py_int f =
     (case f of
        Finite r \<Rightarrow> Inr (if 0 \<le> r then \<lfloor>r\<rfloor> else \<lceil>r\<rceil>)
      | PosInf \<Rightarrow> Inl OverflowError
      | NegInf \<Rightarrow> Inl OverflowError
      | NaN \<Rightarrow> Inl ValueError)"

text \<open>\<^verbatim>\<open>except (ValueError, TypeError): raise ValueError(...)\<close>; anything else passes on.\<close>

definition reraise_as_ValueError :: "failure + 'a \<Rightarrow> failure + 'a" where
  "reraise_as_ValueError r =
     (case r of
        Inl e \<Rightarrow> if e = ValueError \<or> e = TypeError then Inl ValueError else Inl e
      | Inr v \<Rightarrow> Inr v)"

definition validate_int_range :: "pyval \<Rightarrow> int \<Rightarrow> int \<Rightarrow> failure + int" where
  "validate_int_range value min_val max_val =
     reraise_as_ValueError
       (case py_float value of
          Inl e \<Rightarrow> Inl e
        | Inr f \<Rightarrow>
            (case py_int f of
               Inl e \<Rightarrow> Inl e
             | Inr int_val \<Rightarrow>
                 if min_val \<le> int_val \<and> int_val \<le> max_val then Inr int_val
                 else Inl ValueError))"

text \<open>\<^verbatim>\<open>min_val <= float_val <= max_val\<close>: false for NaN and for the infinities.\<close>

definition float_between :: "real \<Rightarrow> real \<Rightarrow> pyfloat \<Rightarrow> bool" where
  "float_between lo hi f = (case f of Finite r \<Rightarrow> lo \<le> r \<and> r \<le> hi | _ \<Rightarrow> False)"

definition validate_float_range :: "pyval \<Rightarrow> real \<Rightarrow> real \<Rightarrow> failure + pyfloat" where
  "validate_float_range value min_val max_val =
     reraise_as_ValueError
       (case py_float value of
          Inl e \<Rightarrow> Inl e
        | Inr float_val \<Rightarrow>
            if float_between min_val max_val float_val then Inr float_val
            else Inl ValueError)"

text \<open>\<^verbatim>\<open>param_validators\<close>: the rule for a recognised key, \<open>None\<close> for any other key.\<close>

definition param_validators :: "string \<Rightarrow> (pyval \<Rightarrow> failure + pyval) option" where
  "param_validators param =
     (if param = ''steps'' then Some (\<lambda>x. map_sum id PInt (validate_int_range x 1 10000))
      else if param = ''alpha'' then Some (\<lambda>x. map_sum id PFloat (validate_float_range x 0 100))
      else if param = ''beta'' then Some (\<lambda>x. map_sum id PFloat (validate_float_range x 0 100))
      else if param = ''gamma'' then Some (\<lambda>x. map_sum id PFloat (validate_float_range x 0 100))
      else if param = ''lr'' then Some (\<lambda>x. map_sum id PFloat (validate_float_range x (1 / 10 ^ 6) 1))
      else if param = ''zmin'' then Some (\<lambda>x. map_sum id PFloat (validate_float_range x (- 10) 10))
      else if param = ''zmax'' then Some (\<lambda>x. map_sum id PFloat (validate_float_range x (- 10) 10))
      else None)"

text \<open>\<^verbatim>\<open>d[k] = v\<close> on a dict kept in insertion order.\<close>

fun dict_set :: "'k \<Rightarrow> 'v \<Rightarrow> ('k \<times> 'v) list \<Rightarrow> ('k \<times> 'v) list" where
  "dict_set k v [] = [(k, v)]"
| "dict_set k v ((k', v') # r) = (if k = k' then (k, v) # r else (k', v') # dict_set k v r)"

text \<open>
  The loop of \<^verbatim>\<open>_validate_execution_params\<close> over \<^verbatim>\<open>execution_config.items()\<close>: a
  ValueError or TypeError of the rule skips the entry, any other exception leaves the
  function.
\<close>

fun validate_items :: "(string \<times> pyval) list \<Rightarrow> (string \<times> pyval) list \<Rightarrow> failure + (string \<times> pyval) list" where
  "validate_items [] safe_params = Inr safe_params"
| "validate_items ((param, value) # rest) safe_params =
     (case param_validators param of
        None \<Rightarrow> validate_items rest safe_params
      | Some rule \<Rightarrow>
          (case rule value of
             Inr safe_value \<Rightarrow> validate_items rest (dict_set param safe_value safe_params)
           | Inl e \<Rightarrow>
               if e = ValueError \<or> e = TypeError then validate_items rest safe_params
               else Inl e))"

definition validate_execution_params :: "(string \<times> pyval) list \<Rightarrow> failure + (string \<times> pyval) list" where
  "validate_execution_params execution_config = validate_items execution_config []"

section \<open>Sample inputs\<close>

definition kpi_rows :: nd where
  "kpi_rows = \<lparr>shape = [2, 3], elem = (\<lambda>idx. case idx of [t, c] \<Rightarrow> real (10 * t + c) | _ \<Rightarrow> 0)\<rparr>"


definition params_1x8x2 :: nd where
  "params_1x8x2 = \<lparr>shape = [1, 8, 2], elem = (\<lambda>idx. case idx of [b, c, t] \<Rightarrow> real (10 * c + t) | _ \<Rightarrow> 0)\<rparr>"


definition zero_layer :: layer_params where
  "zero_layer = \<lparr>lp_weight = (\<lambda>oc c j. 0), lp_bias = (\<lambda>oc. 0)\<rparr>"

definition zero_checkpoint :: checkpoint where
  "zero_checkpoint = \<lparr>temp1_params = zero_layer, temp2_params = zero_layer,
                       final_params = zero_layer, kpi_head_params = zero_layer\<rparr>"

text \<open>
  For comparison only, the prediction as section 4.4 of the specification words it: the
  features averaged over the time axis before the projection.
\<close>

definition mean_time :: "nd \<Rightarrow> failure + nd" where
  "mean_time a =
     (case shape a of
        [B, C, T, V] \<Rightarrow>
          if T = 0 \<and> B * C * V \<noteq> 0 then Inl NotANumber
          else Inr \<lparr>shape = [B, C, 1, V],
                    elem = (\<lambda>idx. case idx of
                       [b, c, t, v] \<Rightarrow> sum_list (map (\<lambda>t'. elem a [b, c, t', v]) [0..<T]) / real T
                     | _ \<Rightarrow> 0)\<rparr>
      | _ \<Rightarrow> Inl RuntimeError)"

definition kpi_prediction_time_averaged :: "stgcn \<Rightarrow> conv2d \<Rightarrow> matrix \<Rightarrow> nd \<Rightarrow> failure + nd" where
  "kpi_prediction_time_averaged m head adj p8 =
     (case flat8_to_stgcn_x p8 of
        Inl e \<Rightarrow> Inl e
      | Inr x4 \<Rightarrow>
          (case STGCN_forward m x4 adj of
             Inl e \<Rightarrow> Inl e
           | Inr h \<Rightarrow>
               (case mean_time h of
                  Inl e \<Rightarrow> Inl e
                | Inr feat \<Rightarrow> conv2d_forward head feat)))"

definition unit_scaler :: scaler where
  "unit_scaler = \<lparr>scaler_x = \<lparr>mean = replicate 8 0, std = replicate 8 1\<rparr>,
                   scaler_y = \<lparr>mean = replicate 3 0, std = replicate 3 1\<rparr>\<rparr>"

text \<open>A stand-in gradient: the decision array itself.\<close>

definition pull_to_zero :: "nd \<Rightarrow> nat list \<Rightarrow> real" where
  "pull_to_zero x idx = elem x idx"

definition sample_request :: OptimizeParamsRequest where
  "sample_request =
     \<lparr>alpha = 1, beta = 2, gamma = 1 / 10, steps = 3, lr = 5 / 100, zmin = - 3, zmax = 3,
      target_kpi = kpi_rows, orig_params = None, kpi_indices = None, return_raw = True\<rparr>"

definition sample_csv_run :: csv_run where
  "sample_csv_run =
     \<lparr>alpha = 1, beta = 2, gamma = 1 / 10, steps = 3, lr = 5 / 100, zmin = - 3, zmax = 3,
      csv_kpi = kpi_rows, csv_params = None, csv_return_raw = True\<rparr>"

section \<open>Properties\<close>

lemma valid_index_Nil [simp]: "valid_index [] idx = (idx = [])"
  by (simp add: valid_index_def)

lemma valid_index_Cons [simp]:
  "valid_index (d # ds) idx = (\<exists>i is. idx = i # is \<and> i < d \<and> valid_index ds is)"
  by (cases idx) (auto simp: valid_index_def)



lemma valid_index_length: "valid_index sh idx \<Longrightarrow> length idx = length sh"
  by (simp add: valid_index_def list_all2_lengthD)

lemma valid_index_nth: "valid_index sh idx \<Longrightarrow> k < length sh \<Longrightarrow> idx ! k < sh ! k"
  by (simp add: valid_index_def list_all2_nthD2)

lemma valid_index_last:
  assumes "valid_index sh idx" "sh \<noteq> []"
  shows "last idx < last sh"
proof -
  have len: "length idx = length sh" using assms(1) by (rule valid_index_length)
  then have ne: "idx \<noteq> []" using assms(2) by auto
  have "idx ! (length sh - 1) < sh ! (length sh - 1)"
    using assms by (intro valid_index_nth) auto
  then show ?thesis using len ne assms(2) by (simp add: last_conv_nth)
qed

subsection \<open>Shape check of the server helpers\<close>

text \<open>
  Claim C9. \<^verbatim>\<open>ensure_batched\<close> raises (ValueError) exactly when the array is neither of
  rank 2 nor of rank 3 with the required length of the last axis; it then returns no
  array at all. Otherwise the result has rank 3 and that last axis: a rank-2 array gets
  a leading batch axis of length one over the same elements, a rank-3 array is returned
  as it is. A call of \<^verbatim>\<open>optimize_params_api\<close> that returns a result has passed the check
  on the target (3 channels) and on the baseline (8 channels): a shape error leaves no
  output.
\<close>

theorem ensure_batched_shape_check:
  "((ensure_batched arr d = Inl ValueError \<longleftrightarrow>
      \<not> (ndim arr = 2 \<and> shape arr ! 1 = d) \<and> \<not> (ndim arr = 3 \<and> shape arr ! 2 = d))
   \<and> (ensure_batched arr d \<noteq> Inl ValueError \<longrightarrow>
        (\<exists>out. ensure_batched arr d = Inr out \<and> ndim out = 3 \<and> shape out ! 2 = d))
   \<and> (ndim arr = 2 \<and> shape arr ! 1 = d \<longrightarrow>
        (\<exists>out. ensure_batched arr d = Inr out \<and> shape out = 1 # shape arr
           \<and> (\<forall>idx. elem out (0 # idx) = elem arr idx)))
   \<and> (ndim arr = 3 \<and> shape arr ! 2 = d \<longrightarrow> ensure_batched arr d = Inr arr))
   \<and> (optimize_params_api ck sc g req = Inr r \<longrightarrow>
        (\<exists>b. ensure_batched (target_kpi req) 3 = Inr b)
        \<and> (\<forall>op0. orig_params req = Some op0 \<longrightarrow> (\<exists>b. ensure_batched op0 8 = Inr b)))"
proof (rule conjI)
  show "(ensure_batched arr d = Inl ValueError \<longleftrightarrow>
      \<not> (ndim arr = 2 \<and> shape arr ! 1 = d) \<and> \<not> (ndim arr = 3 \<and> shape arr ! 2 = d))
   \<and> (ensure_batched arr d \<noteq> Inl ValueError \<longrightarrow>
        (\<exists>out. ensure_batched arr d = Inr out \<and> ndim out = 3 \<and> shape out ! 2 = d))
   \<and> (ndim arr = 2 \<and> shape arr ! 1 = d \<longrightarrow>
        (\<exists>out. ensure_batched arr d = Inr out \<and> shape out = 1 # shape arr
           \<and> (\<forall>idx. elem out (0 # idx) = elem arr idx)))
   \<and> (ndim arr = 3 \<and> shape arr ! 2 = d \<longrightarrow> ensure_batched arr d = Inr arr)"
    by (auto simp: ensure_batched_def new_axis0_def ndim_def nth_Cons split: nat.splits)
next
  show "optimize_params_api ck sc g req = Inr r \<longrightarrow>
        (\<exists>b. ensure_batched (target_kpi req) 3 = Inr b)
        \<and> (\<forall>op0. orig_params req = Some op0 \<longrightarrow> (\<exists>b. ensure_batched op0 8 = Inr b))"
    by (auto simp: optimize_params_api_def split: sum.splits)
qed

theorem ensure_batched_shape_check_witness:
  "ensure_batched kpi_rows 3 = Inr (new_axis0 kpi_rows)
   \<and> shape (new_axis0 kpi_rows) = [1, 2, 3]
   \<and> elem (new_axis0 kpi_rows) [0, 1, 2] = 12
   \<and> ensure_batched kpi_rows 8 = Inl ValueError"
  using ensure_batched_shape_check [of kpi_rows 3] ensure_batched_shape_check [of kpi_rows 8]
  by (simp add: ensure_batched_def new_axis0_def ndim_def kpi_rows_def)

subsection \<open>Channels to nodes\<close>

text \<open>
  Claim C10. On a tensor of shape [B, C, T], \<^verbatim>\<open>flat8_to_stgcn_x\<close> fails its assertion
  unless C = 8; for C = 8 the result has shape [B, 3, T, 3], node 0 holds the channels
  0..2, node 1 the channels 3..5, node 2 the channels 6 and 7, and the third channel of
  node 2 is zero everywhere.
\<close>

theorem flat8_to_stgcn_x_layout:
  assumes "shape p = [B, C, T]"
  shows "(C = 8 \<longrightarrow> (\<exists>x4. flat8_to_stgcn_x p = Inr x4 \<and> shape x4 = [B, 3, T, 3]
            \<and> (\<forall>b c t. elem x4 [b, c, t, 0] = elem p [b, c, t])
            \<and> (\<forall>b c t. elem x4 [b, c, t, 1] = elem p [b, 3 + c, t])
            \<and> (\<forall>b c t. c < 2 \<longrightarrow> elem x4 [b, c, t, 2] = elem p [b, 6 + c, t])
            \<and> (\<forall>b t. elem x4 [b, 2, t, 2] = 0)))
       \<and> (C \<noteq> 8 \<longrightarrow> flat8_to_stgcn_x p = Inl AssertionError)"
  using assms by (simp add: flat8_to_stgcn_x_def)

theorem flat8_to_stgcn_x_layout_witness:
  "\<exists>x4. flat8_to_stgcn_x params_1x8x2 = Inr x4 \<and> shape x4 = [1, 3, 2, 3]
      \<and> elem x4 [0, 1, 1, 0] = 11 \<and> elem x4 [0, 1, 1, 1] = 41
      \<and> elem x4 [0, 1, 1, 2] = 71 \<and> elem x4 [0, 2, 1, 2] = 0"
proof -
  have sh: "shape params_1x8x2 = [1, 8, 2]" by (simp add: params_1x8x2_def)
  obtain x4 where x4: "flat8_to_stgcn_x params_1x8x2 = Inr x4" "shape x4 = [1, 3, 2, 3]"
    "\<And>b c t. elem x4 [b, c, t, 0] = elem params_1x8x2 [b, c, t]"
    "\<And>b c t. elem x4 [b, c, t, 1] = elem params_1x8x2 [b, 3 + c, t]"
    "\<And>b c t. c < 2 \<Longrightarrow> elem x4 [b, c, t, 2] = elem params_1x8x2 [b, 6 + c, t]"
    "\<And>b t. elem x4 [b, 2, t, 2] = 0"
    using flat8_to_stgcn_x_layout [OF sh] by auto
  have e0: "elem x4 [0, 1, 1, 0] = 11"
    unfolding x4(3) [of 0 1 1] by (simp add: params_1x8x2_def)
  have e1: "elem x4 [0, 1, 1, 1] = 41"
    unfolding x4(4) [of 0 1 1] by (simp add: params_1x8x2_def)
  have "(1::nat) < 2" by simp
  then have "elem x4 [0, 1, 1, 2] = elem params_1x8x2 [0, 6 + 1, 1]" by (rule x4(5))
  then have e2: "elem x4 [0, 1, 1, 2] = 71" by (simp add: params_1x8x2_def)
  show ?thesis using x4(1) x4(2) x4(6) e0 e1 e2 by blast
qed

subsection \<open>Scaler\<close>

lemma bshape_Nil2: "bshape xs [] = Some xs"
  by (cases xs) auto

lemma broadcast_shapes_channel:
  "sh \<noteq> [] \<Longrightarrow> broadcast_shapes sh [last sh] = Some sh"
  by (cases sh rule: rev_cases) (auto simp: broadcast_shapes_def bshape_Nil2)

lemma bidx_self: "valid_index sh idx \<Longrightarrow> bidx sh idx = idx"
proof -
  assume v: "valid_index sh idx"
  then have len: "length idx = length sh" by (rule valid_index_length)
  show ?thesis
  proof (rule nth_equalityI)
    show "length (bidx sh idx) = length idx" using len by (simp add: bidx_def)
  next
    fix k assume "k < length (bidx sh idx)"
    then have k: "k < length sh" using len by (simp add: bidx_def)
    then have "idx ! k < sh ! k" using v by (rule valid_index_nth[rotated])
    then show "bidx sh idx ! k = idx ! k" using k len by (auto simp: bidx_def)
  qed
qed

lemma bidx_channel:
  assumes "valid_index sh idx" "sh \<noteq> []"
  shows "bidx [last sh] idx = [last idx]"
proof -
  have len: "length idx = length sh" using assms(1) by (rule valid_index_length)
  then have ne: "idx \<noteq> []" using assms(2) by auto
  have lt: "last idx < last sh" using assms by (rule valid_index_last)
  have "drop (length idx - Suc 0) idx = [last idx]"
    using ne by (cases idx rule: rev_cases) auto
  then show ?thesis using lt by (auto simp: bidx_def)
qed

lemma shape_vec: "shape (vec l) = [length l]"
  by (simp add: vec_def)

text \<open>An array combined with a vector that has one entry per channel (last axis).\<close>

lemma binop_channel:
  assumes "shape a \<noteq> []" "length l = last (shape a)"
  shows "\<exists>r. binop e f a (vec l) = Inr r \<and> shape r = shape a
           \<and> (\<forall>idx. valid_index (shape a) idx \<longrightarrow> elem r idx = f (elem a idx) (l ! last idx))"
proof -
  have bs: "broadcast_shapes (shape a) [last (shape a)] = Some (shape a)"
    using assms(1) by (rule broadcast_shapes_channel)
  have "f (elem a (bidx (shape a) idx)) (elem (vec l) (bidx [last (shape a)] idx))
          = f (elem a idx) (l ! last idx)" if v: "valid_index (shape a) idx" for idx
    using bidx_self[OF v] bidx_channel[OF v assms(1)] valid_index_last[OF v assms(1)] assms(2)
    by (simp add: vec_def)
  then show ?thesis using bs assms(2) by (simp add: binop_def shape_vec)
qed



subsection \<open>Graph propagation on one node\<close>





subsection \<open>Shapes through the network\<close>

lemma conv2d_forward_shape:
  assumes "shape x = [B, C, T, V]" "C = in_channels cv" "kernel_t cv \<le> T + 2 * padding_t cv" "0 < V"
  shows "\<exists>y. conv2d_forward cv x = Inr y
           \<and> shape y = [B, out_channels cv, T + 2 * padding_t cv - kernel_t cv + 1, V]"
  using assms by (simp add: conv2d_forward_def)

lemma conv2d_forward_channel_mismatch:
  assumes "shape x = [B, C, T, V]" "C \<noteq> in_channels cv"
  shows "conv2d_forward cv x = Inl RuntimeError"
  using assms by (simp add: conv2d_forward_def)

lemma TemporalConv_forward_shape:
  assumes "shape x = [B, C, T, V]" "C = in_channels cv" "kernel_t cv \<le> T + 2 * padding_t cv" "0 < V"
  shows "\<exists>y. TemporalConv_forward cv x = Inr y
           \<and> shape y = [B, out_channels cv, T + 2 * padding_t cv - kernel_t cv + 1, V]"
proof -
  obtain y where "conv2d_forward cv x = Inr y"
    "shape y = [B, out_channels cv, T + 2 * padding_t cv - kernel_t cv + 1, V]"
    using conv2d_forward_shape[OF assms] by blast
  then show ?thesis by (simp add: TemporalConv_forward_def nd_map_def)
qed

lemma upt_0_3: "[0..<3] = [0, 1, 2]"
  by (simp add: eval_nat_numeral)

lemma mat_add_ADJ:
  "mat_add ADJ (eye (rows ADJ)) = Inr \<lparr>rows = 3, cols = 3, entry = (\<lambda>i j. 1 + (if i = j then 1 else 0))\<rparr>"
  by (simp add: mat_add_def ADJ_def NUM_NODES_def make_adj_def eye_def broadcast_shapes_def)

lemma normalized_adjacency_ADJ:
  "\<exists>n. normalized_adjacency ADJ = Inr n \<and> rows n = 3 \<and> cols n = 3"
  by (simp add: normalized_adjacency_def mat_add_ADJ row_sums_def diag_def matmul_def Let_def upt_0_3)

lemma GraphConv_forward_shape:
  assumes "shape x = [B, C, T, 3]"
  shows "\<exists>y. GraphConv_forward x ADJ = Inr y \<and> shape y = [B, C, T, 3]"
proof -
  obtain n where n: "normalized_adjacency ADJ = Inr n" "rows n = 3" "cols n = 3"
    using normalized_adjacency_ADJ by blast
  then show ?thesis using assms by (simp add: GraphConv_forward_def einsum_bctv_vw_def)
qed

lemma model_layers:
  "in_channels (temp1 (block (STGCN_MODEL ck))) = 3"
  "out_channels (temp1 (block (STGCN_MODEL ck))) = 64"
  "kernel_t (temp1 (block (STGCN_MODEL ck))) = 5"
  "padding_t (temp1 (block (STGCN_MODEL ck))) = 2"
  "in_channels (temp2 (block (STGCN_MODEL ck))) = 64"
  "out_channels (temp2 (block (STGCN_MODEL ck))) = 64"
  "kernel_t (temp2 (block (STGCN_MODEL ck))) = 5"
  "padding_t (temp2 (block (STGCN_MODEL ck))) = 2"
  "in_channels (final (STGCN_MODEL ck)) = 64"
  "out_channels (final (STGCN_MODEL ck)) = 64"
  "kernel_t (final (STGCN_MODEL ck)) = 1"
  "padding_t (final (STGCN_MODEL ck)) = 0"
  "in_channels (KPI_HEAD ck) = 64"
  "out_channels (KPI_HEAD ck) = 3"
  "kernel_t (KPI_HEAD ck) = 1"
  "padding_t (KPI_HEAD ck) = 0"
  by (simp_all add: STGCN_MODEL_def STGCN_def STGCNBlock_def TemporalConv_def Conv2d_def KPI_HEAD_def
      IN_CHANNELS_def HID_CHANNELS_def KERNEL_SIZE_def)

lemma STGCN_forward_shape:
  assumes "shape x4 = [B, 3, T, 3]" "0 < T"
  shows "\<exists>h. STGCN_forward (STGCN_MODEL ck) x4 ADJ = Inr h \<and> shape h = [B, 64, T, 3]"
proof -
  let ?m = "STGCN_MODEL ck"
  obtain x1 where x1: "TemporalConv_forward (temp1 (block ?m)) x4 = Inr x1" "shape x1 = [B, 64, T, 3]"
    using TemporalConv_forward_shape[OF assms(1), of "temp1 (block ?m)"] assms(2)
    by (auto simp: model_layers)
  obtain x2 where x2: "GraphConv_forward x1 ADJ = Inr x2" "shape x2 = [B, 64, T, 3]"
    using GraphConv_forward_shape[OF x1(2)] by blast
  obtain x3 where x3: "TemporalConv_forward (temp2 (block ?m)) x2 = Inr x3" "shape x3 = [B, 64, T, 3]"
    using TemporalConv_forward_shape[OF x2(2), of "temp2 (block ?m)"] assms(2)
    by (auto simp: model_layers)
  obtain h where h: "conv2d_forward (final ?m) x3 = Inr h" "shape h = [B, 64, T, 3]"
    using conv2d_forward_shape[OF x3(2), of "final ?m"] assms(2)
    by (auto simp: model_layers)
  show ?thesis using x1(1) x2(1) x3(1) h
    by (simp add: STGCN_forward_def STGCNBlock_forward_def)
qed

lemma mean_last_nodes:
  assumes "shape h = [B, C, T, 3]"
  shows "\<exists>feat. mean_last h = Inr feat \<and> shape feat = [B, C, T, 1]
          \<and> (\<forall>b c t. elem feat [b, c, t, 0]
                = (elem h [b, c, t, 0] + elem h [b, c, t, 1] + elem h [b, c, t, 2]) / 3)"
  using assms by (simp add: mean_last_def upt_0_3)

lemma kpi_prediction_shape:
  assumes "shape p = [B, 8, T]" "0 < T"
  shows "\<exists>pred. kpi_prediction (STGCN_MODEL ck) (KPI_HEAD ck) ADJ p = Inr pred
           \<and> shape pred = [B, 3, T, 1]"
proof -
  obtain x4 where x4: "flat8_to_stgcn_x p = Inr x4" "shape x4 = [B, 3, T, 3]"
    using assms(1) by (simp add: flat8_to_stgcn_x_def)
  obtain h where h: "STGCN_forward (STGCN_MODEL ck) x4 ADJ = Inr h" "shape h = [B, 64, T, 3]"
    using STGCN_forward_shape[OF x4(2) assms(2)] by blast
  obtain feat where f: "mean_last h = Inr feat" "shape feat = [B, 64, T, 1]"
    using mean_last_nodes[OF h(2)] by blast
  obtain pred where pr: "conv2d_forward (KPI_HEAD ck) feat = Inr pred" "shape pred = [B, 3, T, 1]"
    using conv2d_forward_shape[OF f(2), of "KPI_HEAD ck"] assms(2)
    by (auto simp: model_layers)
  show ?thesis using x4(1) h(1) f(1) pr by (simp add: kpi_prediction_def)
qed

text \<open>
  Claim C2, as the code has it. On a decision array [B, 8, T] with at least one time step
  the loop's prediction returns; the features [B, 64, T, 3] that the model gives are
  averaged over the three nodes (the last axis), not over time, and the projection of
  the result [B, 64, T, 1] is a prediction [B, 3, T, 1]: one KPI estimate per time step.
\<close>

theorem kpi_prediction_per_timestep:
  assumes "shape p = [B, 8, T]" "0 < T"
  shows "\<exists>x4 h feat pred.
           flat8_to_stgcn_x p = Inr x4
         \<and> STGCN_forward (STGCN_MODEL ck) x4 ADJ = Inr h \<and> shape h = [B, 64, T, 3]
         \<and> mean_last h = Inr feat \<and> shape feat = [B, 64, T, 1]
         \<and> (\<forall>b c t. elem feat [b, c, t, 0]
               = (elem h [b, c, t, 0] + elem h [b, c, t, 1] + elem h [b, c, t, 2]) / 3)
         \<and> conv2d_forward (KPI_HEAD ck) feat = Inr pred
         \<and> kpi_prediction (STGCN_MODEL ck) (KPI_HEAD ck) ADJ p = Inr pred
         \<and> shape pred = [B, 3, T, 1]"
proof -
  obtain x4 where x4: "flat8_to_stgcn_x p = Inr x4" "shape x4 = [B, 3, T, 3]"
    using assms(1) by (simp add: flat8_to_stgcn_x_def)
  obtain h where h: "STGCN_forward (STGCN_MODEL ck) x4 ADJ = Inr h" "shape h = [B, 64, T, 3]"
    using STGCN_forward_shape[OF x4(2) assms(2)] by blast
  obtain feat where f: "mean_last h = Inr feat" "shape feat = [B, 64, T, 1]"
     "\<forall>b c t. elem feat [b, c, t, 0]
          = (elem h [b, c, t, 0] + elem h [b, c, t, 1] + elem h [b, c, t, 2]) / 3"
    using mean_last_nodes[OF h(2)] by blast
  obtain pred where pr: "conv2d_forward (KPI_HEAD ck) feat = Inr pred" "shape pred = [B, 3, T, 1]"
    using conv2d_forward_shape[OF f(2), of "KPI_HEAD ck"] assms(2)
    by (auto simp: model_layers)
  have "kpi_prediction (STGCN_MODEL ck) (KPI_HEAD ck) ADJ p = Inr pred"
    using x4(1) h(1) f(1) pr(1) by (simp add: kpi_prediction_def)
  then show ?thesis using x4 h f pr by blast
qed

theorem kpi_prediction_per_timestep_witness:
  "\<exists>pred. kpi_prediction (STGCN_MODEL zero_checkpoint) (KPI_HEAD zero_checkpoint) ADJ params_1x8x2
             = Inr pred \<and> shape pred = [1, 3, 2, 1]"
proof -
  have "shape params_1x8x2 = [1, 8, 2]" "(0::nat) < 2" by (simp_all add: params_1x8x2_def)
  from kpi_prediction_per_timestep [OF this, of zero_checkpoint] show ?thesis by blast
qed

text \<open>
  The claim as stated fails: for two time steps the prediction has two entries along the
  time axis, where the average over time would leave one.
\<close>

theorem kpi_prediction_not_time_averaged:
  "map_sum id shape
     (kpi_prediction (STGCN_MODEL zero_checkpoint) (KPI_HEAD zero_checkpoint) ADJ params_1x8x2)
     = Inr [1, 3, 2, 1]
   \<and> map_sum id shape
     (kpi_prediction_time_averaged (STGCN_MODEL zero_checkpoint) (KPI_HEAD zero_checkpoint) ADJ
        params_1x8x2)
     = Inr [1, 3, 1, 3]"
proof -
  have sh: "shape params_1x8x2 = [1, 8, 2]" and t: "(0::nat) < 2" by (simp_all add: params_1x8x2_def)
  obtain x4 where x4: "flat8_to_stgcn_x params_1x8x2 = Inr x4" "shape x4 = [1, 3, 2, 3]"
    using sh by (simp add: flat8_to_stgcn_x_def)
  obtain h where h: "STGCN_forward (STGCN_MODEL zero_checkpoint) x4 ADJ = Inr h"
      "shape h = [1, 64, 2, 3]"
    using STGCN_forward_shape[OF x4(2) t] by blast
  obtain pred where p: "kpi_prediction (STGCN_MODEL zero_checkpoint) (KPI_HEAD zero_checkpoint) ADJ
      params_1x8x2 = Inr pred" "shape pred = [1, 3, 2, 1]"
    using kpi_prediction_shape[OF sh t] by blast
  obtain ft where ft: "mean_time h = Inr ft" "shape ft = [1, 64, 1, 3]"
    using h(2) by (simp add: mean_time_def)
  obtain q where q: "conv2d_forward (KPI_HEAD zero_checkpoint) ft = Inr q" "shape q = [1, 3, 1, 3]"
    using conv2d_forward_shape[OF ft(2), of "KPI_HEAD zero_checkpoint"]
    by (auto simp: model_layers)
  have "kpi_prediction_time_averaged (STGCN_MODEL zero_checkpoint) (KPI_HEAD zero_checkpoint) ADJ
      params_1x8x2 = Inr q"
    using x4(1) h(1) ft(1) q(1) by (simp add: kpi_prediction_time_averaged_def)
  then show ?thesis using p q(2) by simp
qed

text \<open>
  Claim C3, as the code has it. With the default configuration the first temporal filter
  has 3 input channels and 64 output channels and the second maps 64 to 64; the
  decision array [B, 8, T] reaches the first filter regrouped as [B, 3, T, 3] (three
  channels on three nodes), and a tensor with 8 channels is rejected by that filter.
\<close>

theorem first_filter_three_channels:
  "in_channels (temp1 (block (STGCN_MODEL ck))) = 3
   \<and> out_channels (temp1 (block (STGCN_MODEL ck))) = 64
   \<and> in_channels (temp2 (block (STGCN_MODEL ck))) = 64
   \<and> out_channels (temp2 (block (STGCN_MODEL ck))) = 64
   \<and> (shape p = [B, 8, T] \<and> 0 < T \<longrightarrow>
        (\<exists>x4 y. flat8_to_stgcn_x p = Inr x4 \<and> shape x4 = [B, 3, T, 3]
           \<and> TemporalConv_forward (temp1 (block (STGCN_MODEL ck))) x4 = Inr y
           \<and> shape y = [B, 64, T, 3]))
   \<and> (shape x = [B, 8, T, V] \<longrightarrow>
        TemporalConv_forward (temp1 (block (STGCN_MODEL ck))) x = Inl RuntimeError)"
proof (intro conjI impI)
  assume a: "shape p = [B, 8, T] \<and> 0 < T"
  obtain x4 where x4: "flat8_to_stgcn_x p = Inr x4" "shape x4 = [B, 3, T, 3]"
    using a by (simp add: flat8_to_stgcn_x_def)
  obtain y where "TemporalConv_forward (temp1 (block (STGCN_MODEL ck))) x4 = Inr y"
     "shape y = [B, 64, T, 3]"
    using TemporalConv_forward_shape[OF x4(2), of "temp1 (block (STGCN_MODEL ck))"] a
    by (auto simp: model_layers)
  then show "\<exists>x4 y. flat8_to_stgcn_x p = Inr x4 \<and> shape x4 = [B, 3, T, 3]
           \<and> TemporalConv_forward (temp1 (block (STGCN_MODEL ck))) x4 = Inr y
           \<and> shape y = [B, 64, T, 3]"
    using x4 by blast
next
  assume sx: "shape x = [B, 8, T, V]"
  have "(8::nat) \<noteq> in_channels (temp1 (block (STGCN_MODEL ck)))"
    by (simp add: model_layers)
  with sx have "conv2d_forward (temp1 (block (STGCN_MODEL ck))) x = Inl RuntimeError"
    by (rule conv2d_forward_channel_mismatch)
  then show "TemporalConv_forward (temp1 (block (STGCN_MODEL ck))) x = Inl RuntimeError"
    by (simp add: TemporalConv_forward_def)
qed (simp_all add: model_layers)

theorem first_filter_three_channels_witness:
  "(\<exists>x4 y. flat8_to_stgcn_x params_1x8x2 = Inr x4 \<and> shape x4 = [1, 3, 2, 3]
       \<and> TemporalConv_forward (temp1 (block (STGCN_MODEL zero_checkpoint))) x4 = Inr y
       \<and> shape y = [1, 64, 2, 3])
   \<and> TemporalConv_forward (temp1 (block (STGCN_MODEL zero_checkpoint))) (zeros [1, 8, 2, 3])
       = Inl RuntimeError"
  using first_filter_three_channels [of zero_checkpoint params_1x8x2 1 2 "zeros [1, 8, 2, 3]" 3]
  by (simp add: params_1x8x2_def zeros_def)

text \<open>The claim as stated fails: the first filter does not take 8 channels.\<close>

theorem first_filter_not_eight_channels:
  "in_channels (temp1 (block (STGCN_MODEL zero_checkpoint))) \<noteq> 8
   \<and> TemporalConv_forward (temp1 (block (STGCN_MODEL zero_checkpoint))) (zeros [1, 8, 2, 3])
       = Inl RuntimeError"
proof -
  have sz: "shape (zeros [1, 8, 2, 3]) = [1, 8, 2, 3]" by (simp add: zeros_def)
  have "(8::nat) \<noteq> in_channels (temp1 (block (STGCN_MODEL zero_checkpoint)))"
    by (simp add: model_layers)
  with sz have "conv2d_forward (temp1 (block (STGCN_MODEL zero_checkpoint))) (zeros [1, 8, 2, 3])
      = Inl RuntimeError"
    by (rule conv2d_forward_channel_mismatch)
  then show ?thesis by (simp add: TemporalConv_forward_def model_layers)
qed

subsection \<open>The optimisation loop\<close>

lemma for_range_length:
  "for_range n body s = Inr (ls, s') \<Longrightarrow> length ls = n"
  by (induction n arbitrary: s ls s') (auto split: sum.splits prod.splits)

lemma for_range_logs:
  assumes "\<And>s l s'. body s = Inr (l, s') \<Longrightarrow> Q l"
  shows "for_range n body s = Inr (ls, s') \<Longrightarrow> \<forall>l \<in> set ls. Q l"
  using assms by (induction n arbitrary: s ls s') (auto split: sum.splits prod.splits)

lemma for_range_returns:
  assumes "\<And>s. I s \<Longrightarrow> \<exists>l s'. body s = Inr (l, s') \<and> I s'"
  shows "I s \<Longrightarrow> \<exists>ls s'. for_range n body s = Inr (ls, s') \<and> I s'"
proof (induction n arbitrary: s)
  case 0
  then show ?case by simp
next
  case (Suc n)
  obtain l s1 where b: "body s = Inr (l, s1)" "I s1" using assms[OF Suc.prems] by blast
  obtain ls s2 where r: "for_range n body s1 = Inr (ls, s2)" "I s2" using Suc.IH[OF b(2)] by blast
  show ?case using b(1) r by simp
qed

lemma bshape_same: "bshape xs xs = Some xs"
  by (induction xs) auto

lemma broadcast_shapes_same: "broadcast_shapes s s = Some s"
  by (simp add: broadcast_shapes_def bshape_same)

lemma mse_same_shape: "shape a = shape b \<Longrightarrow> \<exists>v. mse a b = Inr v"
  by (simp add: mse_def binop_def broadcast_shapes_same)

lemma opt_iteration_result:
  assumes "opt_iteration m head adj g target xz0 supplied cfg s = Inr (lg, s')"
  shows "params_after lg = opt_params s'"
    and "shape (opt_params s') = shape (opt_params s)"
    and "zmin cfg \<le> zmax cfg \<Longrightarrow> zmin cfg \<le> elem (opt_params s') idx \<and> elem (opt_params s') idx \<le> zmax cfg"
    and "\<not> supplied \<Longrightarrow> loss_dev lg = Some 0"
  using assms
  by (auto simp: opt_iteration_def Let_def nd_map_def adam_step_def clamp_def
           split: sum.splits if_splits)

lemma opt_iteration_returns:
  assumes "shape (opt_params s) = [B, 8, T]" "0 < T" "shape target = [B, 3, T, 1]"
    "supplied \<Longrightarrow> shape xz0 = [B, T, 8]"
  shows "\<exists>lg s'. opt_iteration (STGCN_MODEL ck) (KPI_HEAD ck) ADJ g target xz0 supplied cfg s
            = Inr (lg, s') \<and> shape (opt_params s') = [B, 8, T]"
proof -
  obtain pred where p: "kpi_prediction (STGCN_MODEL ck) (KPI_HEAD ck) ADJ (opt_params s) = Inr pred"
     "shape pred = [B, 3, T, 1]"
    using kpi_prediction_shape[OF assms(1,2)] by blast
  obtain lf where lf: "mse pred target = Inr lf"
    using mse_same_shape[of pred target] p(2) assms(3) by auto
  have "\<exists>ld. (if supplied
            then (case transpose_021 xz0 of
                    Inl e \<Rightarrow> Inl e
                  | Inr base \<Rightarrow> mse (opt_params s) base)
            else Inr (Some 0)) = Inr ld"
  proof (cases supplied)
    case True
    then have x: "shape xz0 = [B, T, 8]" by (rule assms(4))
    then obtain base where b: "transpose_021 xz0 = Inr base" "shape base = [B, 8, T]"
      by (simp add: transpose_021_def)
    then show ?thesis using True mse_same_shape[of "opt_params s" base] assms(1) by auto
  next
    case False
    then show ?thesis by simp
  qed
  then obtain ld where ld: "(if supplied
            then (case transpose_021 xz0 of
                    Inl e \<Rightarrow> Inl e
                  | Inr base \<Rightarrow> mse (opt_params s) base)
            else Inr (Some 0)) = Inr ld" by blast
  obtain ls where ls: "tv1 (opt_params s) = Inr ls"
    using assms(1) by (simp add: tv1_def ndim_def)
  show ?thesis
    using p(1) lf ld ls assms(1)
    by (simp add: opt_iteration_def Let_def nd_map_def adam_step_def)
qed


lemma optimize_loop_logs:
  assumes "optimize_loop m head adj g target xz0 supplied cfg = Inr (logs, p)"
  shows "length logs = nat (steps cfg)"
    and "zmin cfg \<le> zmax cfg \<Longrightarrow> \<forall>lg \<in> set logs. \<forall>idx.
            zmin cfg \<le> elem (params_after lg) idx \<and> elem (params_after lg) idx \<le> zmax cfg"
    and "\<not> supplied \<Longrightarrow> \<forall>lg \<in> set logs. loss_dev lg = Some 0"
proof -
  obtain p0 s where r: "for_range (nat (steps cfg))
       (opt_iteration m head adj g target xz0 supplied cfg)
       \<lparr>opt_params = p0, exp_avg = (\<lambda>i. 0), exp_avg_sq = (\<lambda>i. 0), step_t = 0\<rparr> = Inr (logs, s)"
    using assms by (auto simp: optimize_loop_def split: sum.splits if_splits)
  show "length logs = nat (steps cfg)" using r by (rule for_range_length)
  show "\<forall>lg \<in> set logs. \<forall>idx.
            zmin cfg \<le> elem (params_after lg) idx \<and> elem (params_after lg) idx \<le> zmax cfg"
    if z: "zmin cfg \<le> zmax cfg"
  proof (rule for_range_logs[OF _ r])
    fix s l s'
    assume b: "opt_iteration m head adj g target xz0 supplied cfg s = Inr (l, s')"
    show "\<forall>idx. zmin cfg \<le> elem (params_after l) idx \<and> elem (params_after l) idx \<le> zmax cfg"
      using opt_iteration_result(1)[OF b] opt_iteration_result(3)[OF b z] by simp
  qed
  show "\<forall>lg \<in> set logs. loss_dev lg = Some 0" if n: "\<not> supplied"
  proof (rule for_range_logs[OF _ r])
    fix s l s'
    assume b: "opt_iteration m head adj g target xz0 supplied cfg s = Inr (l, s')"
    show "loss_dev l = Some 0" using opt_iteration_result(4)[OF b n] .
  qed
qed

lemma optimize_loop_returns:
  assumes "shape xz0 = [B, T, 8]" "0 < T" "shape target = [B, 3, T, 1]" "0 \<le> lr cfg"
  shows "\<exists>logs p. optimize_loop (STGCN_MODEL ck) (KPI_HEAD ck) ADJ g target xz0 supplied cfg
            = Inr (logs, p) \<and> shape p = [B, T, 8]"
proof -
  obtain p0 where p0: "transpose_021 xz0 = Inr p0" "shape p0 = [B, 8, T]"
    using assms(1) by (simp add: transpose_021_def)
  let ?body = "opt_iteration (STGCN_MODEL ck) (KPI_HEAD ck) ADJ g target xz0 supplied cfg"
  let ?s0 = "\<lparr>opt_params = p0, exp_avg = (\<lambda>i. 0), exp_avg_sq = (\<lambda>i. 0), step_t = 0\<rparr>"
  have "\<exists>ls s'. for_range (nat (steps cfg)) ?body ?s0 = Inr (ls, s')
          \<and> shape (opt_params s') = [B, 8, T]"
  proof (rule for_range_returns[where I = "\<lambda>s. shape (opt_params s) = [B, 8, T]"])
    fix s :: opt_state
    assume "shape (opt_params s) = [B, 8, T]"
    then show "\<exists>l s'. ?body s = Inr (l, s') \<and> shape (opt_params s') = [B, 8, T]"
      using opt_iteration_returns[of s B T target supplied xz0 ck g cfg] assms by blast
  next
    show "shape (opt_params ?s0) = [B, 8, T]" using p0(2) by simp
  qed
  then obtain ls s' where l: "for_range (nat (steps cfg)) ?body ?s0 = Inr (ls, s')"
      "shape (opt_params s') = [B, 8, T]" by blast
  obtain pb where pb: "transpose_021 (opt_params s') = Inr pb" "shape pb = [B, T, 8]"
    using l(2) by (simp add: transpose_021_def)
  show ?thesis using p0(1) assms(4) l(1) pb by (simp add: optimize_loop_def)
qed

lemma z_apply_shape:
  assumes "shape a \<noteq> []" "last (shape a) = length (mean st)" "length (std st) = length (mean st)"
  shows "\<exists>y. z_apply a st = Inr y \<and> shape y = shape a"
proof -
  obtain d where d: "binop ValueError (-) a (vec (mean st)) = Inr d" "shape d = shape a"
    using binop_channel[of a "mean st" ValueError "(-)"] assms by auto
  obtain y where y: "binop ValueError (/) d (vec (map (\<lambda>s. if s = 0 then 1 else s) (std st))) = Inr y"
     "shape y = shape a"
    using binop_channel[of d "map (\<lambda>s. if s = 0 then 1 else s) (std st)" ValueError "(/)"] assms d(2)
    by auto
  show ?thesis using d(1) y by (simp add: z_apply_def)
qed

lemma z_inv_shape:
  assumes "shape a \<noteq> []" "last (shape a) = length (mean st)" "length (std st) = length (mean st)"
  shows "\<exists>y. z_inv a st = Inr y \<and> shape y = shape a"
proof -
  obtain d where d: "binop ValueError (*) a (vec (std st)) = Inr d" "shape d = shape a"
    using binop_channel[of a "std st" ValueError "(*)"] assms by auto
  obtain y where y: "binop ValueError (+) d (vec (mean st)) = Inr y" "shape y = shape a"
    using binop_channel[of d "mean st" ValueError "(+)"] assms d(2) by auto
  show ?thesis using d(1) y by (simp add: z_inv_def)
qed

lemma reshape_rows_shape:
  assumes "numel a = n * c" "0 < c"
  shows "\<exists>r. reshape_rows a c = Inr r \<and> shape r = [n, c]"
  using assms by (simp add: reshape_rows_def reshape_def)

lemma z_apply_rows_shape:
  assumes "numel a = n * c" "0 < c" "length (mean st) = c" "length (std st) = c"
    "prod_list s = n * c"
  shows "\<exists>y. z_apply_rows a c st s = Inr y \<and> shape y = s"
proof -
  obtain r where r: "reshape_rows a c = Inr r" "shape r = [n, c]"
    using reshape_rows_shape[OF assms(1,2)] by blast
  obtain z where z: "z_apply r st = Inr z" "shape z = [n, c]"
    using z_apply_shape[of r st] r(2) assms(3,4) by auto
  show ?thesis using r(1) z assms(5) by (simp add: z_apply_rows_def reshape_def numel_def)
qed

lemma z_inv_rows_shape:
  assumes "numel a = n * c" "0 < c" "length (mean st) = c" "length (std st) = c"
    "prod_list s = n * c"
  shows "\<exists>y. z_inv_rows a c st s = Inr y \<and> shape y = s"
proof -
  obtain r where r: "reshape_rows a c = Inr r" "shape r = [n, c]"
    using reshape_rows_shape[OF assms(1,2)] by blast
  obtain z where z: "z_inv r st = Inr z" "shape z = [n, c]"
    using z_inv_shape[of r st] r(2) assms(3,4) by auto
  show ?thesis using r(1) z assms(5) by (simp add: z_inv_rows_def reshape_def numel_def)
qed

subsection \<open>The two entry points\<close>

lemma ensure_batched_shape:
  assumes "shape a = [B, T, c] \<or> (B = 1 \<and> shape a = [T, c])"
  shows "\<exists>b. ensure_batched a c = Inr b \<and> shape b = [B, T, c]"
  using assms
proof
  assume "shape a = [B, T, c]"
  then show ?thesis by (simp add: ensure_batched_def ndim_def)
next
  assume "B = 1 \<and> shape a = [T, c]"
  then show ?thesis by (simp add: ensure_batched_def ndim_def new_axis0_def)
qed

lemma wrap_index_ok: "- int d \<le> i \<Longrightarrow> i < int d \<Longrightarrow> wrap_index d i \<noteq> None"
  by (simp add: wrap_index_def)

lemma apply_indices_shape:
  assumes "shape a = [B, T, 3]"
    "case ix of None \<Rightarrow> True | Some idx \<Rightarrow> length idx = 3 \<and> list_all (\<lambda>i. - 3 \<le> i \<and> i < 3) idx"
  shows "\<exists>b. apply_indices a ix = Inr b \<and> shape b = [B, T, 3]"
proof (cases ix)
  case None
  then show ?thesis using assms(1) by (simp add: apply_indices_def)
next
  case (Some idx)
  then have l: "length idx = 3" and v: "list_all (\<lambda>i. - 3 \<le> i \<and> i < 3) idx" using assms(2) by auto
  have "\<not> list_ex (\<lambda>i. wrap_index 3 i = None) idx"
    using v wrap_index_ok[of 3] by (auto simp: list_ex_iff list_all_iff)
  then show ?thesis using Some l assms(1) by (simp add: apply_indices_def)
qed

lemma optimize_params_api_returns:
  assumes "well_formed_request B T sc req"
  shows "\<exists>r. optimize_params_api ck sc g req = Inr r \<and> length (trace r) = nat (steps req)
           \<and> shape (params_out r) = [B, T, 8]"
proof -
  have wf: "shape (target_kpi req) = [B, T, 3] \<or> (B = 1 \<and> shape (target_kpi req) = [T, 3])"
    "0 < T"
    "case kpi_indices req of None \<Rightarrow> True
       | Some idx \<Rightarrow> length idx = 3 \<and> list_all (\<lambda>i. - 3 \<le> i \<and> i < 3) idx"
    "case orig_params req of None \<Rightarrow> True
       | Some op0 \<Rightarrow> shape op0 = [B, T, 8] \<or> (B = 1 \<and> shape op0 = [T, 8])"
    "length (mean (scaler_y sc)) = 3" "length (std (scaler_y sc)) = 3"
    "length (mean (scaler_x sc)) = 8" "length (std (scaler_x sc)) = 8" "0 \<le> lr req"
    using assms by (simp_all add: well_formed_request_def)
  obtain tgt0 where t0: "ensure_batched (target_kpi req) 3 = Inr tgt0" "shape tgt0 = [B, T, 3]"
    using ensure_batched_shape[OF wf(1)] by blast
  obtain tgt where t: "apply_indices tgt0 (kpi_indices req) = Inr tgt" "shape tgt = [B, T, 3]"
    using apply_indices_shape[OF t0(2) wf(3)] by blast
  have nt: "numel tgt = (B * T) * 3" using t(2) by (simp add: numel_def)
  obtain yz where yz: "z_apply_rows tgt 3 (scaler_y sc) (shape tgt) = Inr yz" "shape yz = [B, T, 3]"
    using z_apply_rows_shape[OF nt _ wf(5,6), of "shape tgt"] t(2) by auto
  obtain yt where yt: "transpose_021 yz = Inr yt" "shape yt = [B, 3, T]"
    using yz(2) by (simp add: transpose_021_def)
  have tg: "shape (new_axis_last yt) = [B, 3, T, 1]" using yt(2) by (simp add: new_axis_last_def)
  let ?x = "case orig_params req of
              Some op0 \<Rightarrow>
                (case ensure_batched op0 8 of
                   Inl e \<Rightarrow> Inl e
                 | Inr op \<Rightarrow> z_apply_rows op 8 (scaler_x sc) (shape op))
            | None \<Rightarrow> Inr (zeros [shape tgt ! 0, shape tgt ! 1, 8])"
  have "\<exists>xz0. ?x = Inr xz0 \<and> shape xz0 = [B, T, 8]"
  proof (cases "orig_params req")
    case None
    then show ?thesis using t(2) by (simp add: zeros_def)
  next
    case (Some op0)
    then have "shape op0 = [B, T, 8] \<or> (B = 1 \<and> shape op0 = [T, 8])" using wf(4) by simp
    then obtain op where op: "ensure_batched op0 8 = Inr op" "shape op = [B, T, 8]"
      using ensure_batched_shape by blast
    have no: "numel op = (B * T) * 8" using op(2) by (simp add: numel_def)
    obtain xz where "z_apply_rows op 8 (scaler_x sc) (shape op) = Inr xz" "shape xz = [B, T, 8]"
      using z_apply_rows_shape[OF no _ wf(7,8), of "shape op"] op(2) by auto
    then show ?thesis using Some op(1) by simp
  qed
  then obtain xz0 where x: "?x = Inr xz0" "shape xz0 = [B, T, 8]" by blast
  obtain logs p where lp: "optimize_loop (STGCN_MODEL ck) (KPI_HEAD ck) ADJ g (new_axis_last yt) xz0
             (orig_params req \<noteq> None) req = Inr (logs, p)" "shape p = [B, T, 8]"
    using optimize_loop_returns[OF x(2) wf(2) tg wf(9)] by blast
  have len: "length logs = nat (steps req)" using optimize_loop_logs(1)[OF lp(1)] .
  have np: "numel p = (B * T) * 8" using lp(2) by (simp add: numel_def)
  obtain praw where pr: "z_inv_rows p 8 (scaler_x sc) [shape tgt ! 0, shape tgt ! 1, 8] = Inr praw"
     "shape praw = [B, T, 8]"
    using z_inv_rows_shape[OF np _ wf(7,8), of "[shape tgt ! 0, shape tgt ! 1, 8]"] t(2) by auto
  show ?thesis
    using t0(1) t(1) yz(1) yt(1) x(1) lp pr len
    by (cases "return_raw req") (simp_all add: optimize_params_api_def)
qed

lemma optimize_params_api_trace:
  assumes "optimize_params_api ck sc g req = Inr r"
  shows "\<exists>target xz0 p. optimize_loop (STGCN_MODEL ck) (KPI_HEAD ck) ADJ g target xz0
            (orig_params req \<noteq> None) req = Inr (trace r, p)"
  using assms
  by (auto simp: optimize_params_api_def split: sum.splits if_splits; blast)

lemma run_optimize_from_csv_returns:
  assumes "well_formed_csv_run T sc args"
  shows "\<exists>r. run_optimize_from_csv ck sc g args = Inr r \<and> length (trace r) = nat (steps args)
           \<and> shape (params_out r) = [T, 8]"
proof -
  have wf: "shape (csv_kpi args) = [T, 3]" "0 < T"
    "case csv_params args of None \<Rightarrow> True | Some arr \<Rightarrow> shape arr = [T, 8]"
    "length (mean (scaler_y sc)) = 3" "length (std (scaler_y sc)) = 3"
    "length (mean (scaler_x sc)) = 8" "length (std (scaler_x sc)) = 8" "0 \<le> lr args"
    using assms by (simp_all add: well_formed_csv_run_def)
  let ?tgt = "csv_kpi args"
  have t: "check_columns ?tgt 3 = Inr ?tgt" using wf(1) by (simp add: check_columns_def ndim_def)
  have nt: "numel ?tgt = T * 3" using wf(1) by (simp add: numel_def)
  obtain yz where yz: "z_apply_rows ?tgt 3 (scaler_y sc) [1, shape ?tgt ! 0, 3] = Inr yz"
      "shape yz = [1, T, 3]"
    using z_apply_rows_shape[OF nt _ wf(4,5), of "[1, shape ?tgt ! 0, 3]"] wf(1) by auto
  obtain yt where yt: "transpose_021 yz = Inr yt" "shape yt = [1, 3, T]"
    using yz(2) by (simp add: transpose_021_def)
  have tg: "shape (new_axis_last yt) = [1, 3, T, 1]" using yt(2) by (simp add: new_axis_last_def)
  let ?x = "case csv_params args of
              Some arr \<Rightarrow>
                (case check_columns arr 8 of
                   Inl e \<Rightarrow> Inl e
                 | Inr op \<Rightarrow> z_apply_rows op 8 (scaler_x sc) [1, shape ?tgt ! 0, 8])
            | None \<Rightarrow> Inr (zeros [1, shape ?tgt ! 0, 8])"
  have "\<exists>xz0. ?x = Inr xz0 \<and> shape xz0 = [1, T, 8]"
  proof (cases "csv_params args")
    case None
    then show ?thesis using wf(1) by (simp add: zeros_def)
  next
    case (Some arr)
    then have sa: "shape arr = [T, 8]" using wf(3) by simp
    then have c: "check_columns arr 8 = Inr arr" by (simp add: check_columns_def ndim_def)
    have no: "numel arr = T * 8" using sa by (simp add: numel_def)
    obtain xz where "z_apply_rows arr 8 (scaler_x sc) [1, shape ?tgt ! 0, 8] = Inr xz"
        "shape xz = [1, T, 8]"
      using z_apply_rows_shape[OF no _ wf(6,7), of "[1, shape ?tgt ! 0, 8]"] wf(1) by auto
    then show ?thesis using Some c by simp
  qed
  then obtain xz0 where x: "?x = Inr xz0" "shape xz0 = [1, T, 8]" by blast
  obtain logs p where lp: "optimize_loop (STGCN_MODEL ck) (KPI_HEAD ck) ADJ g (new_axis_last yt) xz0
             (csv_params args \<noteq> None) args = Inr (logs, p)" "shape p = [1, T, 8]"
    using optimize_loop_returns[OF x(2) wf(2) tg wf(8)] by blast
  have len: "length logs = nat (steps args)" using optimize_loop_logs(1)[OF lp(1)] .
  obtain pb where pb: "first_item p = Inr pb" "shape pb = [T, 8]"
    using lp(2) by (simp add: first_item_def)
  have np: "numel pb = T * 8" using pb(2) by (simp add: numel_def)
  obtain praw where pr: "z_inv_rows pb 8 (scaler_x sc) [shape ?tgt ! 0, 8] = Inr praw"
     "shape praw = [T, 8]"
    using z_inv_rows_shape[OF np _ wf(6,7), of "[shape ?tgt ! 0, 8]"] wf(1) by auto
  show ?thesis
    using t yz(1) yt(1) x(1) lp pb pr len
    by (cases "csv_return_raw args") (simp_all add: run_optimize_from_csv_def)
qed

lemma run_optimize_from_csv_trace:
  assumes "run_optimize_from_csv ck sc g args = Inr r"
  shows "\<exists>target xz0 p. optimize_loop (STGCN_MODEL ck) (KPI_HEAD ck) ADJ g target xz0
            (csv_params args \<noteq> None) args = Inr (trace r, p)"
  using assms
  by (auto simp: run_optimize_from_csv_def split: sum.splits if_splits; blast)

lemma sample_request_ok: "well_formed_request 1 2 unit_scaler sample_request"
  by (simp add: well_formed_request_def sample_request_def unit_scaler_def kpi_rows_def)

lemma sample_csv_run_ok: "well_formed_csv_run 2 unit_scaler sample_csv_run"
  by (simp add: well_formed_csv_run_def sample_csv_run_def unit_scaler_def kpi_rows_def)

text \<open>
  Claim C7. The loop is \<^verbatim>\<open>for step in range(int(steps))\<close> with no break: on well-formed
  inputs both entry points return after exactly \<open>nat steps\<close> passes (none when steps is
  not positive), and whenever either of them returns at all, it has logged exactly that
  many passes.
\<close>

theorem fixed_iteration_count:
  "(well_formed_request B T sc req \<longrightarrow>
      (\<exists>r. optimize_params_api ck sc g req = Inr r \<and> length (trace r) = nat (steps req)))
   \<and> (well_formed_csv_run T' sc args \<longrightarrow>
      (\<exists>r. run_optimize_from_csv ck sc g args = Inr r \<and> length (trace r) = nat (steps args)))
   \<and> (optimize_params_api ck sc g req = Inr r1 \<longrightarrow> length (trace r1) = nat (steps req))
   \<and> (run_optimize_from_csv ck sc g args = Inr r2 \<longrightarrow> length (trace r2) = nat (steps args))"
proof (intro conjI impI)
  assume "well_formed_request B T sc req"
  from optimize_params_api_returns[OF this]
  show "\<exists>r. optimize_params_api ck sc g req = Inr r \<and> length (trace r) = nat (steps req)"
    by blast
next
  assume "well_formed_csv_run T' sc args"
  from run_optimize_from_csv_returns[OF this]
  show "\<exists>r. run_optimize_from_csv ck sc g args = Inr r \<and> length (trace r) = nat (steps args)"
    by blast
next
  assume "optimize_params_api ck sc g req = Inr r1"
  from optimize_params_api_trace[OF this] optimize_loop_logs(1)
  show "length (trace r1) = nat (steps req)" by blast
next
  assume "run_optimize_from_csv ck sc g args = Inr r2"
  from run_optimize_from_csv_trace[OF this] optimize_loop_logs(1)
  show "length (trace r2) = nat (steps args)" by blast
qed

theorem fixed_iteration_count_witness:
  "(\<exists>r. optimize_params_api zero_checkpoint unit_scaler pull_to_zero sample_request = Inr r
        \<and> length (trace r) = 3)
   \<and> (\<exists>r. run_optimize_from_csv zero_checkpoint unit_scaler pull_to_zero sample_csv_run = Inr r
        \<and> length (trace r) = 3)"
  using fixed_iteration_count [of 1 2 unit_scaler sample_request zero_checkpoint pull_to_zero
      2 sample_csv_run] sample_request_ok sample_csv_run_ok
  by (simp add: sample_request_def sample_csv_run_def)



text \<open>
  Claim C5. When no baseline is given, the deviation term of every pass is the constant
  0, whatever \<open>beta\<close> is, and on well-formed inputs the run returns: the missing baseline
  raises nothing.
\<close>

theorem no_baseline_zero_deviation:
  "(orig_params req = None \<and> optimize_params_api ck sc g req = Inr r1 \<longrightarrow>
      (\<forall>lg \<in> set (trace r1). loss_dev lg = Some 0))
   \<and> (csv_params args = None \<and> run_optimize_from_csv ck sc g args = Inr r2 \<longrightarrow>
      (\<forall>lg \<in> set (trace r2). loss_dev lg = Some 0))
   \<and> (orig_params req = None \<and> well_formed_request B T sc req \<longrightarrow>
      (\<exists>r. optimize_params_api ck sc g req = Inr r))
   \<and> (csv_params args = None \<and> well_formed_csv_run T' sc args \<longrightarrow>
      (\<exists>r. run_optimize_from_csv ck sc g args = Inr r))"
proof (intro conjI impI)
  assume a: "orig_params req = None \<and> optimize_params_api ck sc g req = Inr r1"
  then obtain target xz0 p where "optimize_loop (STGCN_MODEL ck) (KPI_HEAD ck) ADJ g target xz0
            (orig_params req \<noteq> None) req = Inr (trace r1, p)"
    using optimize_params_api_trace by blast
  from optimize_loop_logs(3)[OF this] a
  show "\<forall>lg \<in> set (trace r1). loss_dev lg = Some 0" by simp
next
  assume a: "csv_params args = None \<and> run_optimize_from_csv ck sc g args = Inr r2"
  then obtain target xz0 p where "optimize_loop (STGCN_MODEL ck) (KPI_HEAD ck) ADJ g target xz0
            (csv_params args \<noteq> None) args = Inr (trace r2, p)"
    using run_optimize_from_csv_trace by blast
  from optimize_loop_logs(3)[OF this] a
  show "\<forall>lg \<in> set (trace r2). loss_dev lg = Some 0" by simp
next
  assume "orig_params req = None \<and> well_formed_request B T sc req"
  then show "\<exists>r. optimize_params_api ck sc g req = Inr r"
    using optimize_params_api_returns by blast
next
  assume "csv_params args = None \<and> well_formed_csv_run T' sc args"
  then show "\<exists>r. run_optimize_from_csv ck sc g args = Inr r"
    using run_optimize_from_csv_returns by blast
qed

theorem no_baseline_zero_deviation_witness:
  "0 < beta sample_request
   \<and> (\<exists>r. optimize_params_api zero_checkpoint unit_scaler pull_to_zero sample_request = Inr r
        \<and> length (trace r) = 3 \<and> (\<forall>lg \<in> set (trace r). loss_dev lg = Some 0))"
proof -
  obtain r where r: "optimize_params_api zero_checkpoint unit_scaler pull_to_zero sample_request = Inr r"
     "length (trace r) = nat (steps sample_request)"
    using optimize_params_api_returns[OF sample_request_ok] by blast
  have n: "orig_params sample_request = None" by (simp add: sample_request_def)
  have "\<forall>lg \<in> set (trace r). loss_dev lg = Some 0"
    using no_baseline_zero_deviation [of sample_request zero_checkpoint unit_scaler pull_to_zero r]
      n r(1) by blast
  then show ?thesis using r by (simp add: sample_request_def)
qed

subsection \<open>Parameter validation\<close>

lemma set_dict_set: "set (dict_set k v d) \<subseteq> insert (k, v) (set d)"
  by (induction d) (auto split: if_splits)

text \<open>
  What the validator returns, when it returns: every entry of the result has a
  recognised key and is the value that the rule of that key made of an entry of the
  input.
\<close>

lemma validate_items_sound:
  "validate_items cfg acc = Inr out \<Longrightarrow> (k, v) \<in> set out \<Longrightarrow>
     (k, v) \<in> set acc \<or>
     (\<exists>rule x. param_validators k = Some rule \<and> (k, x) \<in> set cfg \<and> rule x = Inr v)"
proof (induction cfg acc arbitrary: out rule: validate_items.induct)
  case (1 safe_params)
  then show ?case by simp
next
  case (2 param "value" rest safe_params)
  show ?case
  proof (cases "param_validators param")
    case None
    then show ?thesis using 2 by auto
  next
    case (Some rule)
    show ?thesis
    proof (cases "rule value")
      case (Inl e)
      then have e: "e = ValueError \<or> e = TypeError" and
        r: "validate_items rest safe_params = Inr out"
        using "2.prems"(1) Some by (auto split: if_splits)
      from "2.IH"(2)[OF Some Inl e r "2.prems"(2)]
      show ?thesis by auto
    next
      case (Inr sv)
      then have "validate_items rest (dict_set param sv safe_params) = Inr out"
        using "2.prems"(1) Some by simp
      from "2.IH"(3)[OF Some Inr this "2.prems"(2)]
      show ?thesis using set_dict_set[of param sv safe_params] Some Inr by auto
    qed
  qed
qed

text \<open>The example of the specification: all three entries are dropped, nothing is raised.\<close>

lemma validate_execution_params_example:
  "validate_execution_params
     [(''steps'', PInt 50000), (''alpha'', PStr ''abc''), (''unknown_key'', PInt 5)] = Inr []"
  by (simp add: validate_execution_params_def param_validators_def validate_int_range_def
      validate_float_range_def reraise_as_ValueError_def py_float_def py_int_def
      float_of_string_def strip_def is_space_def take_sign_def to_lower_def
      parse_number_def digitpart_def digit_val_def double_overflow_def)

lemma validate_execution_params_accepts:
  "validate_execution_params
     [(''steps'', PStr ''400''), (''lr'', PFloat (Finite (1 / 100))), (''zmin'', PInt (- 20))]
     = Inr [(''steps'', PInt 400), (''lr'', PFloat (Finite (1 / 100)))]"
  by (simp add: validate_execution_params_def param_validators_def validate_int_range_def
      validate_float_range_def reraise_as_ValueError_def py_float_def py_int_def float_between_def
      float_of_string_def strip_def is_space_def take_sign_def to_lower_def
      parse_number_def digitpart_def digit_val_def parse_exponent_def decimal_value_def
      digits_value_def to_double_def double_overflow_def)

text \<open>
  Claim C6 asks that a value which does not parse or is out of range is dropped without
  anything being raised. For \<^verbatim>\<open>steps\<close> given as the string \<^verbatim>\<open>inf\<close> (or as the float
  infinity) the code does not do that: \<^verbatim>\<open>float\<close> accepts it, \<^verbatim>\<open>int\<close> of an infinity raises
  OverflowError, and neither \<^verbatim>\<open>except (ValueError, TypeError)\<close> catches that, so the
  validator raises although the entries after it are valid.
\<close>

theorem validate_execution_params_overflow:
  "validate_execution_params [(''steps'', PStr ''inf'')] = Inl OverflowError
   \<and> validate_execution_params [(''steps'', PFloat PosInf), (''alpha'', PInt 1)] = Inl OverflowError"
  by (simp add: validate_execution_params_def param_validators_def validate_int_range_def
      reraise_as_ValueError_def py_float_def py_int_def
      float_of_string_def strip_def is_space_def take_sign_def to_lower_def)

end
